theory Spec2Isabelle
  imports Complex_Main
begin

section \<open>JavaScript values\<close>

text \<open>
  The program of \<^verbatim>\<open>src/main.js\<close> works on untyped JSON-like values: the answers of
  the API, the objects embedded in a page and the fragments the handlers build. They are
  modelled by one datatype. An object is the list of its own properties; a property is
  looked up by \<open>map_of\<close>, so the first pair with a key is the property and the order of
  the list carries no meaning. A string is a list of code units, restricted to the
  code units below 256. \<open>JNum\<close> carries the finite numbers, with one zero; \<open>JNaN\<close>
  is the other number that is falsy.
\<close>

datatype jsval =
    JUndefined
  | JNull
  | JBool bool
  | JNum rat
  | JNaN
  | JStr string
  | JArr "jsval list"
  | JObj "(string \<times> jsval) list"

datatype error = TypeError | SyntaxError | URIError | External string

text \<open>ToBoolean: the test made by \<^verbatim>\<open>||\<close>, \<^verbatim>\<open>&&\<close>, \<^verbatim>\<open>?:\<close> and \<^verbatim>\<open>if\<close>.\<close>

fun truthy :: "jsval \<Rightarrow> bool" where
  "truthy JUndefined = False"
| "truthy JNull = False"
| "truthy (JBool b) = b"
| "truthy (JNum n) = (n \<noteq> 0)"
| "truthy JNaN = False"
| "truthy (JStr s) = (s \<noteq> [])"
| "truthy (JArr xs) = True"
| "truthy (JObj kvs) = True"

text \<open>\<^verbatim>\<open>a || b\<close>, for operands without effects.\<close>

definition js_or :: "jsval \<Rightarrow> jsval \<Rightarrow> jsval" where
  "js_or a b = (if truthy a then a else b)"

text \<open>
  Reading a property. None of the property names the program reads is defined on a
  built-in prototype, so a read on a number, a boolean, a string or an array, and a
  read of a key an object does not own, give \<^verbatim>\<open>undefined\<close>. A read on
  \<^verbatim>\<open>null\<close> or \<^verbatim>\<open>undefined\<close> throws a TypeError (\<open>js_get\<close>) unless it is
  written with \<^verbatim>\<open>?.\<close> (\<open>js_get_opt\<close>).
\<close>

fun own_property :: "jsval \<Rightarrow> string \<Rightarrow> jsval" where
  "own_property (JObj kvs) k = (case map_of kvs k of Some v \<Rightarrow> v | None \<Rightarrow> JUndefined)"
| "own_property v k = JUndefined"

definition nullish :: "jsval \<Rightarrow> bool" where
  "nullish v = (v = JUndefined \<or> v = JNull)"

definition js_get :: "jsval \<Rightarrow> string \<Rightarrow> error + jsval" where
  "js_get v k = (if nullish v then Inl TypeError else Inr (own_property v k))"

definition js_get_opt :: "jsval \<Rightarrow> string \<Rightarrow> jsval" where
  "js_get_opt v k = (if nullish v then JUndefined else own_property v k)"

text \<open>A destructuring default \<^verbatim>\<open>{ x = d }\<close> replaces \<^verbatim>\<open>undefined\<close> only.\<close>

definition default_to :: "jsval \<Rightarrow> jsval \<Rightarrow> jsval" where
  "default_to d v = (if v = JUndefined then d else v)"

section \<open>The record normalizer\<close>

text \<open>
  The argument object of \<^verbatim>\<open>normalizeRecord\<close>; a property the caller leaves out is
  \<open>JUndefined\<close>.
\<close>

record norm_args =
  apiData :: jsval
  pageData :: jsval
  url :: jsval
  placeId :: jsval

text \<open>
  \<^verbatim>\<open>(apiData && apiData.creator && (apiData.creator.name || apiData.creator.creatorType))\<close>,
  with plain property reads, each of which may throw.
\<close>

definition api_creator :: "jsval \<Rightarrow> error + jsval" where
  "api_creator api =
     (if \<not> truthy api then Inr api
      else (case js_get api ''creator'' of
        Inl e \<Rightarrow> Inl e
      | Inr c \<Rightarrow>
          (if \<not> truthy c then Inr c
           else (case js_get c ''name'' of
             Inl e \<Rightarrow> Inl e
           | Inr n \<Rightarrow> (if truthy n then Inr n else js_get c ''creatorType'')))))"

text \<open>
  \<^verbatim>\<open>normalizeRecord\<close>. The clock \<^verbatim>\<open>new Date().toISOString()\<close> is the parameter
  \<open>now\<close>.
\<close>

definition normalizeRecord :: "norm_args \<Rightarrow> string \<Rightarrow> error + jsval" where
  "normalizeRecord args now =
     (let api = default_to JNull (apiData args);
          pg = default_to JNull (pageData args);
          u = default_to (JStr []) (url args);
          pid = default_to JNull (placeId args)
      in (case api_creator api of
        Inl e \<Rightarrow> Inl e
      | Inr cr \<Rightarrow> Inr (JObj
         [(''experience_id'',
             js_or (js_get_opt api ''universeId'') (js_or (js_get_opt pg ''experienceId'') JNull)),
          (''place_id'',
             js_or pid (js_or (js_get_opt api ''rootPlaceId'')
               (js_or (js_get_opt api ''placeId'') (js_or (js_get_opt pg ''placeId'') JNull)))),
          (''name'',
             js_or (js_get_opt api ''name'') (js_or (js_get_opt pg ''name'') (JStr []))),
          (''creator'', js_or cr (js_or (js_get_opt pg ''creator'') (JStr []))),
          (''visits'',
             js_or (js_get_opt api ''visits'') (js_or (js_get_opt pg ''visits'') JNull)),
          (''favorites'',
             js_or (js_get_opt api ''favoritedCount'') (js_or (js_get_opt pg ''favorites'') JNull)),
          (''playing'',
             js_or (js_get_opt api ''playing'') (js_or (js_get_opt pg ''playing'') JNull)),
          (''maxPlayers'',
             js_or (js_get_opt api ''maxPlayers'') (js_or (js_get_opt pg ''maxPlayers'') JNull)),
          (''price'',
             js_or (js_get_opt api ''price'') (js_or (js_get_opt pg ''price'') JNull)),
          (''genre'',
             js_or (js_get_opt api ''genre'') (js_or (js_get_opt pg ''genre'') (JStr []))),
          (''url'', u),
          (''raw_api'', js_or api JNull),
          (''raw_page'', js_or pg JNull),
          (''extracted_at'', JStr now)])))"

text \<open>Whether an object owns a property, and the twelve canonical fields.\<close>

fun has_property :: "jsval \<Rightarrow> string \<Rightarrow> bool" where
  "has_property (JObj kvs) k = (map_of kvs k \<noteq> None)"
| "has_property v k = False"

definition canonical_fields :: "string list" where
  "canonical_fields =
     [''experience_id'', ''place_id'', ''name'', ''creator'', ''visits'', ''favorites'',
      ''playing'', ''maxPlayers'', ''price'', ''genre'', ''url'', ''extracted_at'']"

subsection \<open>The precedence table of the specification\<close>

text \<open>
  What the specification says of the merge, written from its words: a field is the first
  non-empty value among its sources, in the order of the table, and a default when there is
  none. A source is a path into a fragment; a path that leaves the data gives
  \<^verbatim>\<open>undefined\<close>.
\<close>

fun first_non_empty :: "jsval list \<Rightarrow> jsval \<Rightarrow> jsval" where
  "first_non_empty [] d = d"
| "first_non_empty (v # vs) d = (if truthy v then v else first_non_empty vs d)"

fun at_path :: "jsval \<Rightarrow> string list \<Rightarrow> jsval" where
  "at_path v [] = v"
| "at_path v (k # ks) = at_path (own_property v k) ks"

definition spec_sources :: "norm_args \<Rightarrow> string \<Rightarrow> jsval list" where
  "spec_sources args field =
     (let api = default_to JNull (apiData args);
          pg = default_to JNull (pageData args);
          pid = default_to JNull (placeId args)
      in if field = ''experience_id'' then [at_path api [''universeId''], at_path pg [''experienceId'']]
      else if field = ''place_id'' then
        [pid, at_path api [''rootPlaceId''], at_path api [''placeId''], at_path pg [''placeId'']]
      else if field = ''name'' then [at_path api [''name''], at_path pg [''name'']]
      else if field = ''creator'' then
        [at_path api [''creator'', ''name''], at_path api [''creator'', ''creatorType''],
         at_path pg [''creator'']]
      else if field = ''visits'' then [at_path api [''visits''], at_path pg [''visits'']]
      else if field = ''favorites'' then [at_path api [''favoritedCount''], at_path pg [''favorites'']]
      else if field = ''playing'' then [at_path api [''playing''], at_path pg [''playing'']]
      else if field = ''maxPlayers'' then [at_path api [''maxPlayers''], at_path pg [''maxPlayers'']]
      else if field = ''price'' then [at_path api [''price''], at_path pg [''price'']]
      else if field = ''genre'' then [at_path api [''genre''], at_path pg [''genre'']]
      else [])"

definition spec_default :: "string \<Rightarrow> jsval" where
  "spec_default field =
     (if field = ''name'' \<or> field = ''creator'' \<or> field = ''genre'' then JStr [] else JNull)"

definition spec_field :: "norm_args \<Rightarrow> string \<Rightarrow> jsval" where
  "spec_field args field = first_non_empty (spec_sources args field) (spec_default field)"

definition table_fields :: "string list" where
  "table_fields =
     [''experience_id'', ''place_id'', ''name'', ''creator'', ''visits'', ''favorites'',
      ''playing'', ''maxPlayers'', ''price'', ''genre'']"

text \<open>
  The five numeric fields, each with the key it is read from in the API fragment and in the
  page fragment.
\<close>

definition numeric_fields :: "(string \<times> string \<times> string) list" where
  "numeric_fields =
     [(''visits'', ''visits'', ''visits''),
      (''favorites'', ''favoritedCount'', ''favorites''),
      (''playing'', ''playing'', ''playing''),
      (''maxPlayers'', ''maxPlayers'', ''maxPlayers''),
      (''price'', ''price'', ''price'')]"

text \<open>An input of the merge: the API answer of the specification's scenario and a page fragment.\<close>

definition example_args :: norm_args where
  "example_args =
     \<lparr>apiData = JObj [(''rootPlaceId'', JNum 1818), (''universeId'', JNum 999),
          (''name'', JStr ''Adventure Forward''), (''visits'', JNum 1000000), (''playing'', JNum 0)],
      pageData = JObj [(''name'', JStr ''Adventure Forward''), (''visits'', JStr ''5''),
          (''playing'', JStr ''1234''), (''price'', JNum 0)],
      url = JStr ''https://www.roblox.com/games/1818/Adventure-Forward'',
      placeId = JStr ''1818''\<rparr>"

text \<open>
  Present and non-empty, in the words of the specification: a value that is there and is
  not the empty string. The specification keeps zero apart from absence, so the number 0
  is present and non-empty.
\<close>

definition present_non_empty :: "jsval \<Rightarrow> bool" where
  "present_non_empty v = (v \<noteq> JUndefined \<and> v \<noteq> JNull \<and> v \<noteq> JStr [])"

text \<open>An input of the merge in which the API reports 0 visits and the page 5.\<close>

definition zero_visits_args :: norm_args where
  "zero_visits_args =
     \<lparr>apiData = JObj [(''rootPlaceId'', JNum 1818), (''visits'', JNum 0)],
      pageData = JObj [(''name'', JStr ''Adventure Forward''), (''visits'', JStr ''5'')],
      url = JStr ''https://www.roblox.com/games/1818/Adventure-Forward'',
      placeId = JStr ''1818''\<rparr>"

section \<open>Strings and regular expressions\<close>

text \<open>
  \<^verbatim>\<open>\d\<close> and \<^verbatim>\<open>[0-9]\<close> are the ten ASCII digits. \<^verbatim>\<open>\s\<close>, and what
  \<^verbatim>\<open>trim\<close> removes, are the white space and line terminator code units; below 256
  these are 9 to 13, 32 and 160.
\<close>

definition is_digit :: "char \<Rightarrow> bool" where
  "is_digit c = (c \<in> set ''0123456789'')"

definition is_space :: "char \<Rightarrow> bool" where
  "is_space c = (of_char c \<in> set [9, 10, 11, 12, 13, 32, 160 :: nat])"

definition js_trim :: "string \<Rightarrow> string" where
  "js_trim s = rev (dropWhile is_space (rev (dropWhile is_space s)))"

definition starts_with :: "string \<Rightarrow> string \<Rightarrow> bool" where
  "starts_with s p = (take (length p) s = p)"

fun js_includes :: "string \<Rightarrow> string \<Rightarrow> bool" where
  "js_includes [] p = starts_with [] p"
| "js_includes (c # cs) p = (starts_with (c # cs) p \<or> js_includes cs p)"

text \<open>
  \<^verbatim>\<open>s.match(/lit(\d+)/)\<close> for a literal \<open>lit\<close>: the group \<^verbatim>\<open>m[1]\<close> of the leftmost
  match, \<open>None\<close> when there is no match. \<open>digits_after\<close> is the match anchored at the
  start of the string; \<^verbatim>\<open>\d+\<close> is greedy and nothing follows it.
\<close>

definition digits_after :: "string \<Rightarrow> string \<Rightarrow> string option" where
  "digits_after lit s =
     (if starts_with s lit
      then (let d = takeWhile is_digit (drop (length lit) s) in if d = [] then None else Some d)
      else None)"

fun match_lit_digits :: "string \<Rightarrow> string \<Rightarrow> string option" where
  "match_lit_digits lit [] = digits_after lit []"
| "match_lit_digits lit (c # cs) =
     (case digits_after lit (c # cs) of
        Some d \<Rightarrow> Some d
      | None \<Rightarrow> match_lit_digits lit cs)"

text \<open>\<^verbatim>\<open>/^\d+$/.test(q)\<close>\<close>

definition all_digits :: "string \<Rightarrow> bool" where
  "all_digits q = (q \<noteq> [] \<and> list_all is_digit q)"

section \<open>The identifier resolver\<close>

text \<open>
  What the program reads of a parsed \<^verbatim>\<open>URL\<close>: its \<^verbatim>\<open>pathname\<close> and its
  \<^verbatim>\<open>searchParams\<close>, the list of the name-value pairs of the query. The parser
  \<^verbatim>\<open>new URL(url)\<close> belongs to the platform and is a parameter; it throws a TypeError on a
  string that is not a URL. \<^verbatim>\<open>searchParams.get(name)\<close> is the value of the first pair
  with the name.
\<close>

record parsed_url =
  pathname :: string
  searchParams :: "(string \<times> string) list"

record ids =
  ids_placeId :: "string option"

text \<open>
  The body of the \<^verbatim>\<open>try\<close> block of \<^verbatim>\<open>extractIdsFromUrl\<close>: \<open>Inr (Some r)\<close> when it
  returns \<open>r\<close>, \<open>Inr None\<close> when it runs to its end, \<open>Inl e\<close> when it throws.
\<close>

definition extractIds_try :: "(string \<Rightarrow> error + parsed_url) \<Rightarrow> string \<Rightarrow> error + ids option" where
  "extractIds_try new_URL u_str =
     (case new_URL u_str of
        Inl e \<Rightarrow> Inl e
      | Inr u \<Rightarrow>
          (case match_lit_digits ''/games/'' (pathname u) of
             Some m1 \<Rightarrow> Inr (Some \<lparr>ids_placeId = Some m1\<rparr>)
           | None \<Rightarrow>
               (let q = (case map_of (searchParams u) ''id'' of
                           Some v \<Rightarrow> (if v \<noteq> [] then Some v else None)
                         | None \<Rightarrow> None)
                in if (case q of Some v \<Rightarrow> all_digits v | None \<Rightarrow> False)
                   then Inr (Some \<lparr>ids_placeId = q\<rparr>)
                   else (case match_lit_digits ''/places/'' (pathname u) of
                           Some m2 \<Rightarrow> Inr (Some \<lparr>ids_placeId = Some m2\<rparr>)
                         | None \<Rightarrow> Inr None))))"

text \<open>\<^verbatim>\<open>extractIdsFromUrl\<close>: the \<^verbatim>\<open>catch\<close> ignores the error, and \<^verbatim>\<open>{}\<close> is returned after it.\<close>

definition extractIdsFromUrl :: "(string \<Rightarrow> error + parsed_url) \<Rightarrow> string \<Rightarrow> error + ids" where
  "extractIdsFromUrl new_URL u_str =
     (case extractIds_try new_URL u_str of
        Inr (Some r) \<Rightarrow> Inr r
      | Inr None \<Rightarrow> Inr \<lparr>ids_placeId = None\<rparr>
      | Inl e \<Rightarrow> Inr \<lparr>ids_placeId = None\<rparr>)"

text \<open>
  The patterns as the specification names them. \<open>segment_at lit path i\<close>: at offset \<open>i\<close>
  the path has the literal followed by a digit; \<open>digits_at\<close> is the digit string there.
\<close>

definition segment_at :: "string \<Rightarrow> string \<Rightarrow> nat \<Rightarrow> bool" where
  "segment_at lit path i =
     (starts_with (drop i path) lit
      \<and> (case drop (i + length lit) path of [] \<Rightarrow> False | c # cs \<Rightarrow> is_digit c))"

definition digits_at :: "string \<Rightarrow> string \<Rightarrow> nat \<Rightarrow> string" where
  "digits_at lit path i = takeWhile is_digit (drop (i + length lit) path)"

definition no_segment :: "string \<Rightarrow> string \<Rightarrow> bool" where
  "no_segment lit path = list_all (\<lambda>j. \<not> segment_at lit path j) [0..<Suc (length path)]"

definition first_segment_at :: "string \<Rightarrow> string \<Rightarrow> nat \<Rightarrow> bool" where
  "first_segment_at lit path i =
     (segment_at lit path i \<and> list_all (\<lambda>j. \<not> segment_at lit path j) [0..<i])"

definition id_param :: "parsed_url \<Rightarrow> string option" where
  "id_param u = (case map_of (searchParams u) ''id'' of
                   Some v \<Rightarrow> (if all_digits v then Some v else None)
                 | None \<Rightarrow> None)"

text \<open>Some URLs and what the platform's parser makes of them; every other string is refused.\<close>

definition example_URL :: "string \<Rightarrow> error + parsed_url" where
  "example_URL s =
     (if s = ''https://www.roblox.com/games/1818/Adventure-Forward?id=7''
        then Inr \<lparr>pathname = ''/games/1818/Adventure-Forward'', searchParams = [(''id'', ''7'')]\<rparr>
      else if s = ''https://www.roblox.com/places/77/x?id=42''
        then Inr \<lparr>pathname = ''/places/77/x'', searchParams = [(''id'', ''42'')]\<rparr>
      else if s = ''https://www.roblox.com/places/77?tab=about''
        then Inr \<lparr>pathname = ''/places/77'', searchParams = [(''tab'', ''about'')]\<rparr>
      else Inl TypeError)"

section \<open>The embedded-data extractor\<close>

text \<open>
  The regular expression of \<^verbatim>\<open>parseEmbeddedJson\<close>,
  \<^verbatim>\<open>/(Roblox\.PlaceLauncherService|window\.__INITIAL_STATE__|bootstrapData|Roblox\.(?:GameLaunch|Place))\s*[:=]\s*(\{[\s\S]{20,}\})/i\<close>.
  With the flag \<^verbatim>\<open>i\<close> the letters of the pattern match in either case; no code unit
  outside ASCII matches an ASCII letter.
\<close>

definition ascii_lower :: "char \<Rightarrow> char" where
  "ascii_lower c =
     (case map_of (zip ''ABCDEFGHIJKLMNOPQRSTUVWXYZ'' ''abcdefghijklmnopqrstuvwxyz'') c of
        Some l \<Rightarrow> l
      | None \<Rightarrow> c)"

definition starts_with_ci :: "string \<Rightarrow> string \<Rightarrow> bool" where
  "starts_with_ci s p = (map ascii_lower (take (length p) s) = map ascii_lower p)"

text \<open>The alternatives of the first group, in the order in which the matcher tries them.\<close>

definition embedding_names :: "string list" where
  "embedding_names =
     [''Roblox.PlaceLauncherService'', ''window.__INITIAL_STATE__'', ''bootstrapData'',
      ''Roblox.GameLaunch'', ''Roblox.Place'']"

text \<open>The longest prefix of a string that ends with the given code unit; empty when there is none.\<close>

definition up_to_last :: "char \<Rightarrow> string \<Rightarrow> string" where
  "up_to_last c s = rev (dropWhile (\<lambda>x. x \<noteq> c) (rev s))"

text \<open>
  \<^verbatim>\<open>\s*[:=]\s*(\{[\s\S]{20,}\})\<close> at the start of a string: the second group. Both
  \<^verbatim>\<open>\s*\<close> are greedy and what follows each is not white space; the greedy
  \<^verbatim>\<open>[\s\S]{20,}\<close> runs to the last \<^verbatim>\<open>}\<close> of the string, which must have at least 20
  code units before it.
\<close>

definition after_keyword :: "string \<Rightarrow> string option" where
  "after_keyword t =
     (case dropWhile is_space t of
        [] \<Rightarrow> None
      | c # t2 \<Rightarrow>
          (if c = CHR '':'' \<or> c = CHR ''=''
           then (case dropWhile is_space t2 of
                   [] \<Rightarrow> None
                 | b # t4 \<Rightarrow>
                     (if b = CHR ''{'' \<and> 21 \<le> length (up_to_last (CHR ''}'') t4)
                      then Some (b # up_to_last (CHR ''}'') t4)
                      else None))
           else None))"

fun first_some :: "('a \<Rightarrow> 'b option) \<Rightarrow> 'a list \<Rightarrow> 'b option" where
  "first_some f [] = None"
| "first_some f (x # xs) = (case f x of Some y \<Rightarrow> Some y | None \<Rightarrow> first_some f xs)"

text \<open>The expression at the start of a string, and its leftmost match in a string: \<^verbatim>\<open>m[2]\<close>.\<close>

definition embedded_at :: "string \<Rightarrow> string option" where
  "embedded_at s =
     first_some (\<lambda>k. if starts_with_ci s k then after_keyword (drop (length k) s) else None)
       embedding_names"

fun embedded_match :: "string \<Rightarrow> string option" where
  "embedded_match [] = embedded_at []"
| "embedded_match (c # cs) =
     (case embedded_at (c # cs) of
        Some g \<Rightarrow> Some g
      | None \<Rightarrow> embedded_match cs)"

text \<open>\<^verbatim>\<open>m[2].replace(/;$/, '')\<close>\<close>

definition strip_semicolon :: "string \<Rightarrow> string" where
  "strip_semicolon s = (if s \<noteq> [] \<and> last s = CHR '';'' then butlast s else s)"

text \<open>\<^verbatim>\<open>s.trim().startsWith('{') && s.includes('"@type"')\<close>\<close>

definition is_ld_json :: "string \<Rightarrow> bool" where
  "is_ld_json s = (starts_with (js_trim s) ''{'' \<and> js_includes s ''\"@type\"'')"

text \<open>
  One turn of the loop over the scripts: \<open>Inr (Some j)\<close> when the function returns \<open>j\<close>
  there, \<open>Inr None\<close> when the loop goes on. \<^verbatim>\<open>JSON.parse\<close> belongs to the platform and
  is a parameter; it throws a SyntaxError on a text that is not JSON. Each call of it is
  inside a \<^verbatim>\<open>try\<close>, whose \<^verbatim>\<open>catch\<close> goes on.
\<close>

definition parse_script :: "(string \<Rightarrow> error + jsval) \<Rightarrow> string \<Rightarrow> error + jsval option" where
  "parse_script JSON_parse s =
     (if s = [] then Inr None
      else (case (case embedded_match s of
                    None \<Rightarrow> None
                  | Some m2 \<Rightarrow>
                      (case JSON_parse m2 of
                         Inr j \<Rightarrow> Some j
                       | Inl e \<Rightarrow>
                           (case JSON_parse (strip_semicolon m2) of
                              Inr j \<Rightarrow> Some j
                            | Inl err \<Rightarrow> None))) of
              Some j \<Rightarrow> Inr (Some j)
            | None \<Rightarrow>
                (if is_ld_json s
                 then (case JSON_parse s of
                         Inr j \<Rightarrow> Inr (Some j)
                       | Inl e \<Rightarrow> Inr None)
                 else Inr None)))"

text \<open>
  \<^verbatim>\<open>parseEmbeddedJson\<close>, on the contents of the \<^verbatim>\<open>script\<close> elements of the page in
  document order (what \<^verbatim>\<open>$('script').map((i, el) => $(el).html()).get()\<close> gives).
\<close>

fun parseEmbeddedJson :: "(string \<Rightarrow> error + jsval) \<Rightarrow> string list \<Rightarrow> error + jsval" where
  "parseEmbeddedJson JSON_parse [] = Inr JNull"
| "parseEmbeddedJson JSON_parse (s # ss) =
     (case parse_script JSON_parse s of
        Inl e \<Rightarrow> Inl e
      | Inr (Some j) \<Rightarrow> Inr j
      | Inr None \<Rightarrow> parseEmbeddedJson JSON_parse ss)"

text \<open>
  The texts the extractor hands to the parser for one script, in the order of the
  attempts, and the first text of a list that parses.
\<close>

definition attempts :: "string \<Rightarrow> string list" where
  "attempts s =
     (if s = [] then []
      else (case embedded_match s of None \<Rightarrow> [] | Some m2 \<Rightarrow> [m2, strip_semicolon m2])
           @ (if is_ld_json s then [s] else []))"

fun first_parsed :: "(string \<Rightarrow> error + jsval) \<Rightarrow> string list \<Rightarrow> jsval option" where
  "first_parsed JSON_parse [] = None"
| "first_parsed JSON_parse (t # ts) =
     (case JSON_parse t of Inr j \<Rightarrow> Some j | Inl e \<Rightarrow> first_parsed JSON_parse ts)"

text \<open>
  A page's inline state and what the platform's \<^verbatim>\<open>JSON.parse\<close> makes of its object
  text; the stand-in refuses every other text.
\<close>

definition example_script :: string where
  "example_script =
     ''window.__INITIAL_STATE__ = {\"universeId\": 999, \"visits\": 5, \"experienceId\": 77};''"

definition example_JSON :: "string \<Rightarrow> error + jsval" where
  "example_JSON t =
     (if t = ''{\"universeId\": 999, \"visits\": 5, \"experienceId\": 77}''
      then Inr (JObj [(''universeId'', JNum 999), (''visits'', JNum 5), (''experienceId'', JNum 77)])
      else Inl SyntaxError)"

section \<open>The two request handlers\<close>

text \<open>
  What a handler reads of the fetched page. The static handler reads, through the
  selector engine: the contents of the \<^verbatim>\<open>script\<close> elements, the text of the first
  \<^verbatim>\<open>h1\<close>, the \<^verbatim>\<open>content\<close> of the \<^verbatim>\<open>og:title\<close> meta element if there is one, and
  the texts of the elements that match
  \<^verbatim>\<open>span.stat-value, .count, .text-lead, .text-robux, .stats .value\<close>, in document order.
  The rendered handler reads, through the browser: the title of the page, the inner text
  of the first \<^verbatim>\<open>h1\<close> and the inner text of the first element that matches
  \<^verbatim>\<open>[data-testid="game-players-count"], .playing-count, .text-lead\<close>; each of these reads
  may fail.
\<close>

record page =
  pg_url :: string
  pg_loadedUrl :: "string option"
  pg_scripts :: "string list"
  pg_h1_text :: string
  pg_og_title :: "string option"
  pg_stat_texts :: "string list"
  pg_title :: "error + string"
  pg_h1_innerText :: "error + string"
  pg_count_innerText :: "error + string"

text \<open>
  The surroundings of a handler: the two switches of the input it reads, the functions of
  the platform, the two API lookups, the crawler's \<^verbatim>\<open>enqueueLinks\<close>, the two stores
  and the clock. Both lookups, \<^verbatim>\<open>fetchRobloxGameApiByPlaceId\<close> and
  \<^verbatim>\<open>fetchRobloxGameApiByUniverseId\<close>, enclose their whole body in \<^verbatim>\<open>try\<close> and return
  \<^verbatim>\<open>null\<close> from the \<^verbatim>\<open>catch\<close>, so a call never throws; what it returns is decided by
  the network. A write to a store either succeeds or throws.
\<close>

record env =
  useApi :: bool
  checkPlaceDetails :: bool
  URL_parser :: "string \<Rightarrow> error + parsed_url"
  JSON_parser :: "string \<Rightarrow> error + jsval"
  encodeURIComponent :: "string \<Rightarrow> error + string"
  fetchRobloxGameApiByPlaceId :: "string \<Rightarrow> jsval"
  fetchRobloxGameApiByUniverseId :: "jsval \<Rightarrow> jsval"
  enqueueLinks :: "string \<Rightarrow> error option"
  dataset_pushData :: "jsval \<Rightarrow> error option"
  kv_setValue :: "string \<Rightarrow> jsval \<Rightarrow> error option"
  clock :: string

datatype component =
  Resolver | Extractor | ApiByPlaceId | ApiByUniverseId | Normalizer | DatasetSink | KeyValueSink

datatype log_entry = Info string string | Warning string string error

text \<open>
  What a handler changes: the dataset, the key-value store and the log. \<open>calls\<close> lists
  the components in the order in which the handlers reach their call sites.
\<close>

record world =
  dataset :: "jsval list"
  kv :: "(string \<times> jsval) list"
  logs :: "log_entry list"
  calls :: "component list"

text \<open>\<^verbatim>\<open>request.loadedUrl ?? request.url\<close>\<close>

definition request_target :: "page \<Rightarrow> string" where
  "request_target pg = (case pg_loadedUrl pg of Some l \<Rightarrow> l | None \<Rightarrow> pg_url pg)"

text \<open>\<^verbatim>\<open>ids.placeId || null\<close>, and the value as a JavaScript value.\<close>

definition or_null :: "string option \<Rightarrow> string option" where
  "or_null p = (case p of Some v \<Rightarrow> (if v = [] then None else Some v) | None \<Rightarrow> None)"

definition opt_str :: "string option \<Rightarrow> jsval" where
  "opt_str p = (case p of Some v \<Rightarrow> JStr v | None \<Rightarrow> JNull)"

text \<open>
  The properties a spread \<^verbatim>\<open>...v\<close> copies: those of an object, the elements of an array
  and the code units of a string under their indices, nothing otherwise.
\<close>

fun digits_of_nat :: "nat \<Rightarrow> string" where
  "digits_of_nat n =
     (if n < 10 then [''0123456789'' ! n]
      else digits_of_nat (n div 10) @ [''0123456789'' ! (n mod 10)])"

declare digits_of_nat.simps [simp del]

fun props_of :: "jsval \<Rightarrow> (string \<times> jsval) list" where
  "props_of (JObj kvs) = kvs"
| "props_of (JArr xs) = zip (map digits_of_nat [0..<length xs]) xs"
| "props_of (JStr s) = zip (map digits_of_nat [0..<length s]) (map (\<lambda>c. JStr [c]) s)"
| "props_of v = []"

text \<open>
  The fallbacks of the static handler:
  \<^verbatim>\<open>$('h1').first().text().trim() || $('meta[property="og:title"]').attr('content') || ''\<close>
  and the digits of the first matched element whose trimmed text has a digit.
\<close>

definition cheerio_name :: "page \<Rightarrow> jsval" where
  "cheerio_name pg =
     js_or (JStr (js_trim (pg_h1_text pg)))
       (js_or (case pg_og_title pg of Some t \<Rightarrow> JStr t | None \<Rightarrow> JUndefined) (JStr []))"

definition cheerio_visits :: "page \<Rightarrow> jsval" where
  "cheerio_visits pg =
     (let visitsText =
            (case filter (\<lambda>t. list_ex is_digit (js_trim t)) (pg_stat_texts pg) of
               [] \<Rightarrow> []
             | t # ts \<Rightarrow> js_trim t)
      in if visitsText \<noteq> [] then JStr (filter is_digit visitsText) else JNull)"

text \<open>
  \<^verbatim>\<open>let apiData = null; if (useApi && placeId) apiData = await fetchRobloxGameApiByPlaceId(placeId);\<close>
  in both handlers, with the components called.
\<close>

definition api_by_place :: "env \<Rightarrow> string option \<Rightarrow> jsval \<times> component list" where
  "api_by_place env pid =
     (case pid of
        Some p \<Rightarrow>
          (if useApi env then (fetchRobloxGameApiByPlaceId env p, [ApiByPlaceId]) else (JNull, []))
      | None \<Rightarrow> (JNull, []))"

text \<open>
  \<^verbatim>\<open>if (!apiData && useApi && pageJson && pageJson.universeId && checkPlaceDetails)\<close>
  \<^verbatim>\<open>apiData = await fetchRobloxGameApiByUniverseId(pageJson.universeId);\<close>
  The read of \<^verbatim>\<open>universeId\<close> is made on a truthy value only.
\<close>

definition api_by_universe :: "env \<Rightarrow> jsval \<Rightarrow> jsval \<Rightarrow> jsval \<times> component list" where
  "api_by_universe env api pageJson =
     (if \<not> truthy api \<and> useApi env \<and> truthy pageJson
         \<and> truthy (own_property pageJson ''universeId'') \<and> checkPlaceDetails env
      then (fetchRobloxGameApiByUniverseId env (own_property pageJson ''universeId''),
            [ApiByUniverseId])
      else (api, []))"

text \<open>
  An object literal that ends with a spread, \<^verbatim>\<open>{ k1: v1, ..., ...v }\<close>: the properties
  of \<open>v\<close>, and those written before it that \<open>v\<close> does not define again.
\<close>

definition spread_over :: "(string \<times> jsval) list \<Rightarrow> jsval \<Rightarrow> (string \<times> jsval) list" where
  "spread_over base v = props_of v @ filter (\<lambda>kv. map_of (props_of v) (fst kv) = None) base"

text \<open>
  \<^verbatim>\<open>{ name: name || pageJson?.name || '', visits: apiData ? apiData.visits : visits, ...pageJson }\<close>
\<close>

definition cheerio_pageData :: "jsval \<Rightarrow> jsval \<Rightarrow> jsval \<Rightarrow> jsval \<Rightarrow> jsval" where
  "cheerio_pageData name visits api pageJson =
     JObj (spread_over
       [(''name'', js_or name (js_or (js_get_opt pageJson ''name'') (JStr []))),
        (''visits'', if truthy api then own_property api ''visits'' else visits)]
       pageJson)"

text \<open>
  What a handler has in hand before the merge: the place id, the API fragment, the page
  fragment, the value it will store under the key, and the components it went through.
\<close>

record gathered =
  g_placeId :: "string option"
  g_apiData :: jsval
  g_pageData :: jsval
  g_raw :: jsval
  g_calls :: "component list"

definition cheerio_gather :: "env \<Rightarrow> page \<Rightarrow> error + gathered" where
  "cheerio_gather env pg =
     (case extractIdsFromUrl (URL_parser env) (request_target pg) of
        Inl e \<Rightarrow> Inl e
      | Inr ids \<Rightarrow>
          (case parseEmbeddedJson (JSON_parser env) (pg_scripts pg) of
             Inl e \<Rightarrow> Inl e
           | Inr pageJson \<Rightarrow>
               (let pid = or_null (ids_placeId ids);
                    a1 = api_by_place env pid;
                    a2 = api_by_universe env (fst a1) pageJson
                in Inr \<lparr>g_placeId = pid,
                        g_apiData = fst a2,
                        g_pageData =
                          cheerio_pageData (cheerio_name pg) (cheerio_visits pg) (fst a2) pageJson,
                        g_raw = JObj [(''url'', JStr (request_target pg)), (''apiData'', fst a2),
                                      (''pageJson'', pageJson)],
                        g_calls = [Resolver, Extractor] @ snd a1 @ snd a2\<rparr>)))"

text \<open>
  The rendered handler: the title or the first \<^verbatim>\<open>h1\<close>, each read with
  \<^verbatim>\<open>.catch(() => '')\<close>, and the digits of the player count when its text is not empty.
\<close>

definition or_empty :: "error + string \<Rightarrow> string" where
  "or_empty r = (case r of Inr t \<Rightarrow> t | Inl e \<Rightarrow> [])"

definition playwright_name :: "page \<Rightarrow> jsval" where
  "playwright_name pg =
     js_or (JStr (or_empty (pg_title pg))) (js_or (JStr (or_empty (pg_h1_innerText pg))) (JStr []))"

definition playwright_playing :: "page \<Rightarrow> jsval" where
  "playwright_playing pg =
     (let playingText = or_empty (pg_count_innerText pg)
      in if playingText \<noteq> [] then JStr (filter is_digit playingText) else JNull)"

definition playwright_gather :: "env \<Rightarrow> page \<Rightarrow> error + gathered" where
  "playwright_gather env pg =
     (case extractIdsFromUrl (URL_parser env) (request_target pg) of
        Inl e \<Rightarrow> Inl e
      | Inr ids \<Rightarrow>
          (let pid = or_null (ids_placeId ids);
               a1 = api_by_place env pid;
               pageData = JObj [(''name'', playwright_name pg), (''playing'', playwright_playing pg)]
           in Inr \<lparr>g_placeId = pid,
                   g_apiData = fst a1,
                   g_pageData = pageData,
                   g_raw = JObj [(''url'', JStr (request_target pg)), (''apiData'', fst a1),
                                 (''pageData'', pageData)],
                   g_calls = [Resolver] @ snd a1\<rparr>))"

text \<open>
  The end of both handlers. The key is \<^verbatim>\<open>experiences/<placeId>\<close>, or
  \<^verbatim>\<open>experiences/<encodeURIComponent(url)>\<close> when there is no place id. \<open>kv_write\<close> is
  the \<^verbatim>\<open>try\<close> block, which holds the computation of the key and \<^verbatim>\<open>kv.setValue\<close>:
  \<open>Inl e\<close> when it throws \<open>e\<close>, the key when the value is stored. The \<^verbatim>\<open>catch\<close> logs a
  warning.
\<close>

definition raw_key :: "env \<Rightarrow> string \<Rightarrow> string option \<Rightarrow> error + string" where
  "raw_key env u pid =
     (case pid of
        Some p \<Rightarrow> Inr (''experiences/'' @ p)
      | None \<Rightarrow>
          (case encodeURIComponent env u of
             Inl e \<Rightarrow> Inl e
           | Inr s \<Rightarrow> Inr (''experiences/'' @ s)))"

definition warn_kv :: "string \<Rightarrow> error \<Rightarrow> world \<Rightarrow> world" where
  "warn_kv u e w = w\<lparr>logs := logs w @ [Warning ''Failed to save raw JSON to KV'' u e]\<rparr>"

definition kv_write :: "env \<Rightarrow> string \<Rightarrow> string option \<Rightarrow> jsval \<Rightarrow> error + string" where
  "kv_write env u pid v =
     (case raw_key env u pid of
        Inl e \<Rightarrow> Inl e
      | Inr key \<Rightarrow>
          (case kv_setValue env key v of
             Some e \<Rightarrow> Inl e
           | None \<Rightarrow> Inr key))"

definition save_raw :: "env \<Rightarrow> string \<Rightarrow> string option \<Rightarrow> jsval \<Rightarrow> world \<Rightarrow> world" where
  "save_raw env u pid v w =
     (case kv_write env u pid v of
        Inl e \<Rightarrow> warn_kv u e w
      | Inr key \<Rightarrow> w\<lparr>kv := (key, v) # kv w\<rparr>)"

text \<open>
  \<^verbatim>\<open>normalizeRecord\<close>, then \<^verbatim>\<open>await dataset.pushData(record)\<close>, which is outside every
  \<^verbatim>\<open>try\<close>, then the \<^verbatim>\<open>try\<close> block. The first component of the result is the error the
  handler throws, \<open>None\<close> when it returns.
\<close>

definition finish :: "env \<Rightarrow> string \<Rightarrow> gathered \<Rightarrow> world \<Rightarrow> error option \<times> world" where
  "finish env u g w =
     (let w1 = w\<lparr>calls := calls w @ g_calls g @ [Normalizer]\<rparr>
      in (case normalizeRecord
                 \<lparr>apiData = g_apiData g, pageData = g_pageData g, url = JStr u,
                  placeId = opt_str (g_placeId g)\<rparr> (clock env) of
            Inl e \<Rightarrow> (Some e, w1)
          | Inr r \<Rightarrow>
              (let w2 = w1\<lparr>calls := calls w1 @ [DatasetSink]\<rparr>
               in (case dataset_pushData env r of
                     Some e \<Rightarrow> (Some e, w2)
                   | None \<Rightarrow>
                       (None,
                        save_raw env u (g_placeId g) (g_raw g)
                          (w2\<lparr>dataset := dataset w2 @ [r],
                              calls := calls w2 @ [KeyValueSink]\<rparr>))))))"

text \<open>
  \<^verbatim>\<open>cheerioHandler\<close> and \<^verbatim>\<open>playwrightHandler\<close>. Each logs, awaits
  \<^verbatim>\<open>enqueueLinks\<close> outside every \<^verbatim>\<open>try\<close>, gathers, merges and stores. The rendered
  handler first waits for the network to be idle and ignores a failure of the wait.
\<close>

definition cheerioHandler :: "env \<Rightarrow> page \<Rightarrow> world \<Rightarrow> error option \<times> world" where
  "cheerioHandler env pg w =
     (let u = request_target pg;
          w0 = w\<lparr>logs := logs w @ [Info ''Processing (cheerio)'' u]\<rparr>
      in (case enqueueLinks env u of
            Some e \<Rightarrow> (Some e, w0)
          | None \<Rightarrow>
              (case cheerio_gather env pg of
                 Inl e \<Rightarrow> (Some e, w0)
               | Inr g \<Rightarrow> finish env u g w0)))"

definition playwrightHandler :: "env \<Rightarrow> page \<Rightarrow> world \<Rightarrow> error option \<times> world" where
  "playwrightHandler env pg w =
     (let u = request_target pg;
          w0 = w\<lparr>logs := logs w @ [Info ''Processing (playwright)'' u]\<rparr>
      in (case enqueueLinks env u of
            Some e \<Rightarrow> (Some e, w0)
          | None \<Rightarrow>
              (case playwright_gather env pg of
                 Inl e \<Rightarrow> (Some e, w0)
               | Inr g \<Rightarrow> finish env u g w0)))"

text \<open>
  A run: the game page of the specification's scenario, with its inline state, and
  surroundings in which the API knows place 1818 and every write succeeds. The stand-ins
  for the platform's functions cover the strings of this run.
\<close>

definition example_page :: page where
  "example_page =
     \<lparr>pg_url = ''https://www.roblox.com/games/1818/Adventure-Forward?id=7'',
      pg_loadedUrl = None,
      pg_scripts = [''var x = 1;'', example_script],
      pg_h1_text = '' Adventure Forward '',
      pg_og_title = None,
      pg_stat_texts = [''Visits'', '' 12,345 ''],
      pg_title = Inr ''Adventure Forward - Roblox'',
      pg_h1_innerText = Inr ''Adventure Forward'',
      pg_count_innerText = Inr ''1,234 playing''\<rparr>"

definition example_env :: env where
  "example_env =
     \<lparr>useApi = True,
      checkPlaceDetails = True,
      URL_parser = example_URL,
      JSON_parser = example_JSON,
      encodeURIComponent = (\<lambda>s. Inl URIError),
      fetchRobloxGameApiByPlaceId =
        (\<lambda>p. if p = ''1818''
             then JObj [(''rootPlaceId'', JNum 1818), (''universeId'', JNum 999),
                        (''name'', JStr ''Adventure Forward''), (''visits'', JNum 1000000)]
             else JNull),
      fetchRobloxGameApiByUniverseId = (\<lambda>v. JNull),
      enqueueLinks = (\<lambda>u. None),
      dataset_pushData = (\<lambda>r. None),
      kv_setValue = (\<lambda>k v. None),
      clock = ''2026-01-01T00:00:00.000Z''\<rparr>"

text \<open>The same surroundings with a dataset, or a key-value store, that refuses every write.\<close>

definition failing_dataset_env :: env where
  "failing_dataset_env =
     example_env\<lparr>dataset_pushData := (\<lambda>r. Some (External ''dataset unavailable''))\<rparr>"

definition failing_kv_env :: env where
  "failing_kv_env = example_env\<lparr>kv_setValue := (\<lambda>k v. Some (External ''store unavailable''))\<rparr>"

text \<open>The same page without its inline state.\<close>

definition plain_page :: page where
  "plain_page = example_page\<lparr>pg_scripts := [''var x = 1;'']\<rparr>"

definition empty_world :: world where
  "empty_world = \<lparr>dataset = [], kv = [], logs = [], calls = []\<rparr>"

section \<open>Properties of the normalizer\<close>

lemma own_property_nullish: "nullish v \<Longrightarrow> own_property v k = JUndefined"
  by (auto simp: nullish_def)

lemma js_get_opt_own: "js_get_opt v k = own_property v k"
  by (simp add: js_get_opt_def own_property_nullish)

lemma truthy_not_nullish: "truthy v \<Longrightarrow> \<not> nullish v"
  by (auto simp: nullish_def)

lemma api_creator_total: "\<exists>c. api_creator api = Inr c"
  by (auto simp: api_creator_def js_get_def truthy_not_nullish)

lemma own_property_falsy: "\<not> truthy v \<Longrightarrow> own_property v k = JUndefined"
  by (cases v) auto

lemma api_creator_or:
  "api_creator api = Inr c \<Longrightarrow>
   js_or c d =
     first_non_empty [at_path api [''creator'', ''name''], at_path api [''creator'', ''creatorType'']] d"
  by (auto simp: api_creator_def js_get_def js_or_def truthy_not_nullish own_property_falsy
      split: if_splits)

lemma first_non_empty_append:
  "first_non_empty (xs @ ys) d = first_non_empty xs (first_non_empty ys d)"
  by (induction xs) auto

lemma first_non_empty_or: "first_non_empty xs (js_or b d) = first_non_empty (xs @ [b]) d"
  by (simp add: first_non_empty_append js_or_def)

lemma spec_field_simps:
  "spec_field args ''experience_id'' =
     js_or (js_get_opt (default_to JNull (apiData args)) ''universeId'')
       (js_or (js_get_opt (default_to JNull (pageData args)) ''experienceId'') JNull)"
  "spec_field args ''place_id'' =
     js_or (default_to JNull (placeId args))
       (js_or (js_get_opt (default_to JNull (apiData args)) ''rootPlaceId'')
         (js_or (js_get_opt (default_to JNull (apiData args)) ''placeId'')
           (js_or (js_get_opt (default_to JNull (pageData args)) ''placeId'') JNull)))"
  "spec_field args ''name'' =
     js_or (js_get_opt (default_to JNull (apiData args)) ''name'')
       (js_or (js_get_opt (default_to JNull (pageData args)) ''name'') (JStr []))"
  "spec_field args ''visits'' =
     js_or (js_get_opt (default_to JNull (apiData args)) ''visits'')
       (js_or (js_get_opt (default_to JNull (pageData args)) ''visits'') JNull)"
  "spec_field args ''favorites'' =
     js_or (js_get_opt (default_to JNull (apiData args)) ''favoritedCount'')
       (js_or (js_get_opt (default_to JNull (pageData args)) ''favorites'') JNull)"
  "spec_field args ''playing'' =
     js_or (js_get_opt (default_to JNull (apiData args)) ''playing'')
       (js_or (js_get_opt (default_to JNull (pageData args)) ''playing'') JNull)"
  "spec_field args ''maxPlayers'' =
     js_or (js_get_opt (default_to JNull (apiData args)) ''maxPlayers'')
       (js_or (js_get_opt (default_to JNull (pageData args)) ''maxPlayers'') JNull)"
  "spec_field args ''price'' =
     js_or (js_get_opt (default_to JNull (apiData args)) ''price'')
       (js_or (js_get_opt (default_to JNull (pageData args)) ''price'') JNull)"
  "spec_field args ''genre'' =
     js_or (js_get_opt (default_to JNull (apiData args)) ''genre'')
       (js_or (js_get_opt (default_to JNull (pageData args)) ''genre'') (JStr []))"
  by (simp_all add: spec_field_def spec_sources_def spec_default_def js_get_opt_own js_or_def Let_def)

lemma spec_field_creator:
  assumes "api_creator (default_to JNull (apiData args)) = Inr c"
  shows "spec_field args ''creator'' =
     js_or c (js_or (js_get_opt (default_to JNull (pageData args)) ''creator'') (JStr []))"
proof -
  let ?api = "default_to JNull (apiData args)"
  let ?pc = "own_property (default_to JNull (pageData args)) ''creator''"
  have "spec_field args ''creator'' =
      first_non_empty ([at_path ?api [''creator'', ''name''],
        at_path ?api [''creator'', ''creatorType'']] @ [?pc]) (JStr [])"
    by (simp add: spec_field_def spec_sources_def spec_default_def Let_def)
  also have "\<dots> = first_non_empty [at_path ?api [''creator'', ''name''],
        at_path ?api [''creator'', ''creatorType'']] (js_or ?pc (JStr []))"
    by (simp only: first_non_empty_or)
  also have "\<dots> = js_or c (js_or ?pc (JStr []))"
    by (simp only: api_creator_or[OF assms])
  finally show ?thesis
    by (simp only: js_get_opt_own)
qed

lemma normalizeRecord_fields:
  assumes "api_creator (default_to JNull (apiData args)) = Inr c"
  shows "normalizeRecord args now = Inr (JObj
         [(''experience_id'', spec_field args ''experience_id''),
          (''place_id'', spec_field args ''place_id''),
          (''name'', spec_field args ''name''),
          (''creator'', spec_field args ''creator''),
          (''visits'', spec_field args ''visits''),
          (''favorites'', spec_field args ''favorites''),
          (''playing'', spec_field args ''playing''),
          (''maxPlayers'', spec_field args ''maxPlayers''),
          (''price'', spec_field args ''price''),
          (''genre'', spec_field args ''genre''),
          (''url'', default_to (JStr []) (url args)),
          (''raw_api'', js_or (default_to JNull (apiData args)) JNull),
          (''raw_page'', js_or (default_to JNull (pageData args)) JNull),
          (''extracted_at'', JStr now)])"
  unfolding spec_field_simps spec_field_creator[OF assms]
  by (simp add: normalizeRecord_def Let_def assms)

lemma normalizeRecord_spec:
  "\<exists>r. normalizeRecord args now = Inr r
     \<and> list_all (\<lambda>f. own_property r f = spec_field args f) table_fields"
proof -
  obtain c where c: "api_creator (default_to JNull (apiData args)) = Inr c"
    using api_creator_total by blast
  show ?thesis
    by (simp add: normalizeRecord_fields[OF c] table_fields_def)
qed

text \<open>
  Claim C1. \<^verbatim>\<open>normalizeRecord\<close> returns a record for every argument, whatever
  \<^verbatim>\<open>apiData\<close> and \<^verbatim>\<open>pageData\<close> are (\<^verbatim>\<open>null\<close>, left out, an object or anything
  else). The record owns the twelve canonical fields; its \<^verbatim>\<open>url\<close> is the \<^verbatim>\<open>url\<close> of
  the call (the empty string when left out) and its \<^verbatim>\<open>extracted_at\<close> the time of the
  clock.
\<close>

theorem normalizeRecord_total:
  "\<exists>r. normalizeRecord args now = Inr r
     \<and> list_all (has_property r) canonical_fields
     \<and> own_property r ''url'' = default_to (JStr []) (url args)
     \<and> own_property r ''extracted_at'' = JStr now"
proof -
  obtain c where c: "api_creator (default_to JNull (apiData args)) = Inr c"
    using api_creator_total by blast
  show ?thesis
    by (simp add: normalizeRecord_def Let_def c canonical_fields_def)
qed

lemma own_property_default: "own_property (default_to JNull v) k = own_property v k"
  by (simp add: default_to_def)

lemma truthy_default: "truthy (default_to JNull v) = truthy v"
  by (simp add: default_to_def)

text \<open>
  Claim C2, as amended. Every field of the table is the first truthy value of its sources,
  in the order of the table, truthy being what \<^verbatim>\<open>||\<close> tests: not \<^verbatim>\<open>undefined\<close>,
  \<^verbatim>\<open>null\<close>, \<^verbatim>\<open>false\<close>, 0, \<^verbatim>\<open>NaN\<close> or the empty string. In particular, when
  \<^verbatim>\<open>apiData.visits\<close> and \<^verbatim>\<open>pageData.visits\<close> are both truthy, the \<^verbatim>\<open>visits\<close> of
  the record is \<^verbatim>\<open>apiData.visits\<close>.
\<close>

theorem normalizeRecord_precedence:
  "\<exists>r. normalizeRecord args now = Inr r
     \<and> list_all (\<lambda>f. own_property r f = spec_field args f) table_fields
     \<and> (truthy (own_property (apiData args) ''visits'')
          \<and> truthy (own_property (pageData args) ''visits'')
        \<longrightarrow> own_property r ''visits'' = own_property (apiData args) ''visits'')"
proof -
  obtain r where r: "normalizeRecord args now = Inr r"
    and t: "list_all (\<lambda>f. own_property r f = spec_field args f) table_fields"
    using normalizeRecord_spec by blast
  from t have "own_property r ''visits'' = spec_field args ''visits''"
    by (simp add: table_fields_def)
  then have "truthy (own_property (apiData args) ''visits'')
      \<longrightarrow> own_property r ''visits'' = own_property (apiData args) ''visits''"
    by (simp add: spec_field_simps js_get_opt_own own_property_default js_or_def)
  with r t show ?thesis by blast
qed

text \<open>The scenario of the specification: the API gives 1000000 visits, the page 5.\<close>

theorem normalizeRecord_precedence_witness:
  "truthy (own_property (apiData example_args) ''visits'')
   \<and> truthy (own_property (pageData example_args) ''visits'')
   \<and> (\<exists>r. normalizeRecord example_args ''2026-01-01T00:00:00.000Z'' = Inr r
         \<and> own_property r ''visits'' = JNum 1000000)"
proof -
  have h: "truthy (own_property (apiData example_args) ''visits'')
      \<and> truthy (own_property (pageData example_args) ''visits'')"
    by (simp add: example_args_def)
  have v: "own_property (apiData example_args) ''visits'' = JNum 1000000"
    by (simp add: example_args_def)
  obtain r where r: "normalizeRecord example_args ''2026-01-01T00:00:00.000Z'' = Inr r"
    and i: "truthy (own_property (apiData example_args) ''visits'')
          \<and> truthy (own_property (pageData example_args) ''visits'')
        \<longrightarrow> own_property r ''visits'' = own_property (apiData example_args) ''visits''"
    using normalizeRecord_precedence[of example_args "''2026-01-01T00:00:00.000Z''"] by blast
  from i h v have "own_property r ''visits'' = JNum 1000000"
    by simp
  with r h show ?thesis by blast
qed

text \<open>
  Claim C2 as stated fails: with 0 visits in the API fragment and 5 in the page fragment,
  both present and non-empty, the \<^verbatim>\<open>visits\<close> of the record is the page's 5 and
  not the API's 0.
\<close>

theorem zero_visits_falls_through:
  "own_property (apiData zero_visits_args) ''visits'' = JNum 0
   \<and> present_non_empty (own_property (apiData zero_visits_args) ''visits'')
   \<and> present_non_empty (own_property (pageData zero_visits_args) ''visits'')
   \<and> \<not> isl (normalizeRecord zero_visits_args ''2026-01-01T00:00:00.000Z'')
   \<and> own_property (projr (normalizeRecord zero_visits_args ''2026-01-01T00:00:00.000Z''))
         ''visits'' = JStr ''5''"
  by code_simp

text \<open>
  Claim C3. \<^verbatim>\<open>place_id\<close> is the first non-empty of the \<^verbatim>\<open>placeId\<close> parameter,
  \<^verbatim>\<open>apiData.rootPlaceId\<close>, \<^verbatim>\<open>apiData.placeId\<close> and \<^verbatim>\<open>pageData.placeId\<close>, in this
  order; a non-empty parameter is the \<^verbatim>\<open>place_id\<close> of the record whatever the API says.
\<close>

theorem normalizeRecord_place_id:
  "\<exists>r. normalizeRecord args now = Inr r
     \<and> own_property r ''place_id'' =
         first_non_empty
           [default_to JNull (placeId args), own_property (apiData args) ''rootPlaceId'',
            own_property (apiData args) ''placeId'', own_property (pageData args) ''placeId'']
           JNull
     \<and> (truthy (placeId args) \<longrightarrow> own_property r ''place_id'' = placeId args)"
proof -
  obtain r where r: "normalizeRecord args now = Inr r"
    and t: "list_all (\<lambda>f. own_property r f = spec_field args f) table_fields"
    using normalizeRecord_spec by blast
  from t have p: "own_property r ''place_id'' = spec_field args ''place_id''"
    by (simp add: table_fields_def)
  have s: "spec_field args ''place_id'' =
      first_non_empty
        [default_to JNull (placeId args), own_property (apiData args) ''rootPlaceId'',
         own_property (apiData args) ''placeId'', own_property (pageData args) ''placeId'']
        JNull"
    by (simp add: spec_field_def spec_sources_def spec_default_def Let_def own_property_default)
  have d: "truthy (placeId args) \<Longrightarrow> default_to JNull (placeId args) = placeId args"
    by (auto simp: default_to_def)
  have "truthy (placeId args) \<longrightarrow> own_property r ''place_id'' = placeId args"
    by (simp add: p s truthy_default d)
  with r p s show ?thesis by simp
qed

text \<open>The parameter is the string 1818 and the API's \<^verbatim>\<open>rootPlaceId\<close> the number 1818.\<close>

theorem normalizeRecord_place_id_witness:
  "truthy (placeId example_args)
   \<and> own_property (apiData example_args) ''rootPlaceId'' = JNum 1818
   \<and> (\<exists>r. normalizeRecord example_args ''2026-01-01T00:00:00.000Z'' = Inr r
         \<and> own_property r ''place_id'' = JStr ''1818'')"
proof -
  have h: "truthy (placeId example_args)"
    and a: "own_property (apiData example_args) ''rootPlaceId'' = JNum 1818"
    and v: "placeId example_args = JStr ''1818''"
    by (simp_all add: example_args_def)
  obtain r where r: "normalizeRecord example_args ''2026-01-01T00:00:00.000Z'' = Inr r"
    and i: "truthy (placeId example_args)
      \<longrightarrow> own_property r ''place_id'' = placeId example_args"
    using normalizeRecord_place_id[of example_args "''2026-01-01T00:00:00.000Z''"] by blast
  from i h v have "own_property r ''place_id'' = JStr ''1818''"
    by simp
  with r h a show ?thesis by blast
qed

lemma js_or_chain_facts:
  "js_or a (js_or b JNull) \<noteq> JNum 0"
  "truthy (js_or a (js_or b JNull)) \<or> js_or a (js_or b JNull) = JNull"
  "a = JNum 0 \<Longrightarrow> js_or a (js_or b JNull) = js_or b JNull"
  "\<not> truthy a \<Longrightarrow> b = JNum 0 \<Longrightarrow> js_or a (js_or b JNull) = JNull"
  by (auto simp: js_or_def)

lemma numeric_field_facts:
  assumes "own_property r f = js_or (own_property (apiData args) ak)
      (js_or (own_property (pageData args) pk) JNull)"
  shows "own_property r f \<noteq> JNum 0
          \<and> (truthy (own_property r f) \<or> own_property r f = JNull)
          \<and> (own_property (apiData args) ak = JNum 0
               \<longrightarrow> own_property r f = js_or (own_property (pageData args) pk) JNull)
          \<and> (\<not> truthy (own_property (apiData args) ak) \<and> own_property (pageData args) pk = JNum 0
               \<longrightarrow> own_property r f = JNull)"
proof (intro conjI impI)
  show "own_property r f \<noteq> JNum 0"
    unfolding assms by (rule js_or_chain_facts)
  show "truthy (own_property r f) \<or> own_property r f = JNull"
    unfolding assms by (rule js_or_chain_facts)
  show "own_property r f = js_or (own_property (pageData args) pk) JNull"
    if "own_property (apiData args) ak = JNum 0"
    unfolding assms using that by (rule js_or_chain_facts)
  show "own_property r f = JNull"
    if "\<not> truthy (own_property (apiData args) ak) \<and> own_property (pageData args) pk = JNum 0"
    unfolding assms using that by (simp add: js_or_chain_facts)
qed

text \<open>
  Claim C9. None of \<^verbatim>\<open>visits\<close>, \<^verbatim>\<open>favorites\<close>, \<^verbatim>\<open>playing\<close>,
  \<^verbatim>\<open>maxPlayers\<close> and \<^verbatim>\<open>price\<close> is ever the number 0 in the record: each is a
  truthy value or \<^verbatim>\<open>null\<close>. A 0 of the API fragment gives way to the page's value (or
  \<^verbatim>\<open>null\<close>), and a 0 of the page fragment, reached when the API has nothing, gives
  \<^verbatim>\<open>null\<close>.
\<close>

theorem normalizeRecord_no_zero:
  "\<exists>r. normalizeRecord args now = Inr r
     \<and> list_all (\<lambda>(f, ak, pk).
          own_property r f \<noteq> JNum 0
          \<and> (truthy (own_property r f) \<or> own_property r f = JNull)
          \<and> (own_property (apiData args) ak = JNum 0
               \<longrightarrow> own_property r f = js_or (own_property (pageData args) pk) JNull)
          \<and> (\<not> truthy (own_property (apiData args) ak) \<and> own_property (pageData args) pk = JNum 0
               \<longrightarrow> own_property r f = JNull))
        numeric_fields"
proof -
  obtain r where r: "normalizeRecord args now = Inr r"
    and t: "list_all (\<lambda>f. own_property r f = spec_field args f) table_fields"
    using normalizeRecord_spec by blast
  from t have e: "own_property r ''visits'' = spec_field args ''visits''"
    "own_property r ''favorites'' = spec_field args ''favorites''"
    "own_property r ''playing'' = spec_field args ''playing''"
    "own_property r ''maxPlayers'' = spec_field args ''maxPlayers''"
    "own_property r ''price'' = spec_field args ''price''"
    by (simp_all add: table_fields_def)
  note n = e[unfolded spec_field_simps js_get_opt_own own_property_default]
  have "list_all (\<lambda>(f, ak, pk). own_property r f =
      js_or (own_property (apiData args) ak) (js_or (own_property (pageData args) pk) JNull))
    numeric_fields"
    by (simp add: numeric_fields_def n)
  then have "list_all (\<lambda>(f, ak, pk).
          own_property r f \<noteq> JNum 0
          \<and> (truthy (own_property r f) \<or> own_property r f = JNull)
          \<and> (own_property (apiData args) ak = JNum 0
               \<longrightarrow> own_property r f = js_or (own_property (pageData args) pk) JNull)
          \<and> (\<not> truthy (own_property (apiData args) ak) \<and> own_property (pageData args) pk = JNum 0
               \<longrightarrow> own_property r f = JNull))
        numeric_fields"
  proof (rule list.pred_mono_strong)
    fix z :: "string \<times> string \<times> string"
    assume a: "case z of (f, ak, pk) \<Rightarrow> own_property r f =
      js_or (own_property (apiData args) ak) (js_or (own_property (pageData args) pk) JNull)"
    obtain f ak pk where z: "z = (f, ak, pk)"
      by (rule prod_cases3)
    from a show "case z of (f, ak, pk) \<Rightarrow>
          own_property r f \<noteq> JNum 0
          \<and> (truthy (own_property r f) \<or> own_property r f = JNull)
          \<and> (own_property (apiData args) ak = JNum 0
               \<longrightarrow> own_property r f = js_or (own_property (pageData args) pk) JNull)
          \<and> (\<not> truthy (own_property (apiData args) ak) \<and> own_property (pageData args) pk = JNum 0
               \<longrightarrow> own_property r f = JNull)"
      unfolding z prod.case by (rule numeric_field_facts)
  qed
  with r show ?thesis by blast
qed

text \<open>The API reports 0 players and the page 1234; only the page has a price, and it is 0.\<close>

theorem normalizeRecord_no_zero_witness:
  "own_property (apiData example_args) ''playing'' = JNum 0
   \<and> \<not> truthy (own_property (apiData example_args) ''price'')
   \<and> own_property (pageData example_args) ''price'' = JNum 0
   \<and> (\<exists>r. normalizeRecord example_args ''2026-01-01T00:00:00.000Z'' = Inr r
         \<and> own_property r ''playing'' = JStr ''1234''
         \<and> own_property r ''price'' = JNull)"
proof -
  have h: "own_property (apiData example_args) ''playing'' = JNum 0"
    "\<not> truthy (own_property (apiData example_args) ''price'')"
    "own_property (pageData example_args) ''price'' = JNum 0"
    and p: "js_or (own_property (pageData example_args) ''playing'') JNull = JStr ''1234''"
    by (simp_all add: example_args_def js_or_def)
  obtain r where r: "normalizeRecord example_args ''2026-01-01T00:00:00.000Z'' = Inr r"
    and l: "list_all (\<lambda>(f, ak, pk).
          own_property r f \<noteq> JNum 0
          \<and> (truthy (own_property r f) \<or> own_property r f = JNull)
          \<and> (own_property (apiData example_args) ak = JNum 0
               \<longrightarrow> own_property r f = js_or (own_property (pageData example_args) pk) JNull)
          \<and> (\<not> truthy (own_property (apiData example_args) ak)
                \<and> own_property (pageData example_args) pk = JNum 0
               \<longrightarrow> own_property r f = JNull))
        numeric_fields"
    using normalizeRecord_no_zero[of example_args "''2026-01-01T00:00:00.000Z''"] by blast
  note u = l[unfolded numeric_fields_def list.pred_inject prod.case]
  from u have "own_property (apiData example_args) ''playing'' = JNum 0
      \<longrightarrow> own_property r ''playing'' = js_or (own_property (pageData example_args) ''playing'') JNull"
    by (elim conjE)
  moreover from u have "\<not> truthy (own_property (apiData example_args) ''price'')
          \<and> own_property (pageData example_args) ''price'' = JNum 0
      \<longrightarrow> own_property r ''price'' = JNull"
    by (elim conjE)
  ultimately have "own_property r ''playing'' = JStr ''1234''" "own_property r ''price'' = JNull"
    using h p by simp_all
  with r h show ?thesis by blast
qed

section \<open>Properties of the identifier resolver\<close>

lemma digits_after_segment:
  "digits_after lit s = (if segment_at lit s 0 then Some (digits_at lit s 0) else None)"
  by (cases "drop (length lit) s") (auto simp: digits_after_def segment_at_def digits_at_def Let_def)

lemma segment_at_Cons: "segment_at lit (c # cs) (Suc j) = segment_at lit cs j"
  by (simp add: segment_at_def)

lemma digits_at_Cons: "digits_at lit (c # cs) (Suc j) = digits_at lit cs j"
  by (simp add: digits_at_def)

lemma segment_at_Nil: "\<not> segment_at lit [] i"
  by (simp add: segment_at_def)

lemma first_segment_at_iff:
  "first_segment_at lit path i \<longleftrightarrow> segment_at lit path i \<and> (\<forall>j<i. \<not> segment_at lit path j)"
  by (auto simp: first_segment_at_def list_all_iff)

lemma no_segment_iff:
  "no_segment lit path \<longleftrightarrow> (\<forall>j\<le>length path. \<not> segment_at lit path j)"
  by (auto simp: no_segment_def list_all_iff less_Suc_eq_le)

lemma match_lit_digits_first:
  "first_segment_at lit path i \<Longrightarrow> match_lit_digits lit path = Some (digits_at lit path i)"
proof (induction path arbitrary: i)
  case Nil
  then show ?case by (simp add: first_segment_at_iff segment_at_Nil)
next
  case (Cons c cs)
  show ?case
  proof (cases i)
    case 0
    with Cons.prems show ?thesis
      by (simp add: first_segment_at_iff digits_after_segment)
  next
    case (Suc k)
    from Cons.prems Suc have no: "\<not> segment_at lit (c # cs) 0"
      by (auto simp: first_segment_at_iff)
    from Cons.prems Suc have "segment_at lit cs k"
      by (simp add: first_segment_at_iff segment_at_Cons)
    moreover have "\<not> segment_at lit cs j" if "j < k" for j
    proof -
      from that Suc have "Suc j < i" by simp
      with Cons.prems have "\<not> segment_at lit (c # cs) (Suc j)"
        unfolding first_segment_at_iff by blast
      then show ?thesis by (simp add: segment_at_Cons)
    qed
    ultimately have "first_segment_at lit cs k"
      by (simp add: first_segment_at_iff)
    then have "match_lit_digits lit cs = Some (digits_at lit cs k)"
      by (rule Cons.IH)
    with no Suc show ?thesis
      by (simp add: digits_after_segment digits_at_Cons)
  qed
qed

lemma match_lit_digits_none:
  "no_segment lit path \<Longrightarrow> match_lit_digits lit path = None"
proof (induction path)
  case Nil
  then show ?case by (simp add: digits_after_segment segment_at_Nil)
next
  case (Cons c cs)
  from Cons.prems have no: "\<not> segment_at lit (c # cs) 0"
    unfolding no_segment_iff by blast
  have "\<not> segment_at lit cs j" if "j \<le> length cs" for j
  proof -
    from that have "Suc j \<le> length (c # cs)" by simp
    with Cons.prems have "\<not> segment_at lit (c # cs) (Suc j)"
      unfolding no_segment_iff by blast
    then show ?thesis by (simp add: segment_at_Cons)
  qed
  then have "no_segment lit cs"
    by (simp add: no_segment_iff)
  then have "match_lit_digits lit cs = None"
    by (rule Cons.IH)
  with no show ?case
    by (simp add: digits_after_segment)
qed

text \<open>
  Claim C4. For a URL the platform parses: when the path has \<^verbatim>\<open>/games/<digits>\<close>, the
  resolver returns the digits of its first occurrence, whatever the query and the rest of
  the path are; otherwise, when the query's \<^verbatim>\<open>id\<close> parameter (the one
  \<^verbatim>\<open>searchParams.get\<close> gives) is all digits, it returns that value; otherwise, when the
  path has \<^verbatim>\<open>/places/<digits>\<close>, it returns the digits of its first occurrence.
\<close>

theorem extractIdsFromUrl_precedence:
  assumes "new_URL u_str = Inr u"
  shows "(first_segment_at ''/games/'' (pathname u) i
            \<longrightarrow> extractIdsFromUrl new_URL u_str
                  = Inr \<lparr>ids_placeId = Some (digits_at ''/games/'' (pathname u) i)\<rparr>)
       \<and> (no_segment ''/games/'' (pathname u) \<and> id_param u = Some q
            \<longrightarrow> extractIdsFromUrl new_URL u_str = Inr \<lparr>ids_placeId = Some q\<rparr>)
       \<and> (no_segment ''/games/'' (pathname u) \<and> id_param u = None
            \<and> first_segment_at ''/places/'' (pathname u) k
            \<longrightarrow> extractIdsFromUrl new_URL u_str
                  = Inr \<lparr>ids_placeId = Some (digits_at ''/places/'' (pathname u) k)\<rparr>)"
proof (intro conjI impI)
  assume "first_segment_at ''/games/'' (pathname u) i"
  then have "match_lit_digits ''/games/'' (pathname u) = Some (digits_at ''/games/'' (pathname u) i)"
    by (rule match_lit_digits_first)
  then show "extractIdsFromUrl new_URL u_str
      = Inr \<lparr>ids_placeId = Some (digits_at ''/games/'' (pathname u) i)\<rparr>"
    by (simp add: extractIdsFromUrl_def extractIds_try_def assms)
next
  assume a: "no_segment ''/games/'' (pathname u) \<and> id_param u = Some q"
  then have g: "match_lit_digits ''/games/'' (pathname u) = None"
    by (simp add: match_lit_digits_none)
  from a have "map_of (searchParams u) ''id'' = Some q" "all_digits q"
    by (auto simp: id_param_def split: option.splits if_splits)
  moreover from this have "q \<noteq> []"
    by (simp add: all_digits_def)
  ultimately show "extractIdsFromUrl new_URL u_str = Inr \<lparr>ids_placeId = Some q\<rparr>"
    by (simp add: extractIdsFromUrl_def extractIds_try_def assms g)
next
  assume a: "no_segment ''/games/'' (pathname u) \<and> id_param u = None
      \<and> first_segment_at ''/places/'' (pathname u) k"
  then have g: "match_lit_digits ''/games/'' (pathname u) = None"
    by (simp add: match_lit_digits_none)
  from a have p: "match_lit_digits ''/places/'' (pathname u)
      = Some (digits_at ''/places/'' (pathname u) k)"
    by (simp add: match_lit_digits_first)
  from a have "id_param u = None" by simp
  then have "\<not> (case (case map_of (searchParams u) ''id'' of
                 Some v \<Rightarrow> (if v \<noteq> [] then Some v else None) | None \<Rightarrow> None) of
               Some v \<Rightarrow> all_digits v | None \<Rightarrow> False)"
    by (auto simp: id_param_def split: option.splits if_splits)
  then show "extractIdsFromUrl new_URL u_str
      = Inr \<lparr>ids_placeId = Some (digits_at ''/places/'' (pathname u) k)\<rparr>"
    by (simp add: extractIdsFromUrl_def extractIds_try_def assms g p Let_def)
qed

text \<open>
  Claim C5. \<^verbatim>\<open>extractIdsFromUrl\<close> returns on every string and never throws; on a string
  the platform's parser refuses, it returns the empty result.
\<close>

theorem extractIdsFromUrl_never_raises:
  "(\<exists>r. extractIdsFromUrl new_URL u_str = Inr r)
   \<and> (isl (new_URL u_str) \<longrightarrow> extractIdsFromUrl new_URL u_str = Inr \<lparr>ids_placeId = None\<rparr>)"
  by (auto simp: extractIdsFromUrl_def extractIds_try_def Let_def isl_def
      split: sum.splits option.splits)

text \<open>
  A game URL that also carries an \<^verbatim>\<open>id\<close>, a place URL that carries an \<^verbatim>\<open>id\<close>, and
  a place URL without one.
\<close>

theorem extractIdsFromUrl_precedence_witness:
  "first_segment_at ''/games/'' ''/games/1818/Adventure-Forward'' 0
   \<and> extractIdsFromUrl example_URL ''https://www.roblox.com/games/1818/Adventure-Forward?id=7''
     = Inr \<lparr>ids_placeId = Some ''1818''\<rparr>
   \<and> no_segment ''/games/'' ''/places/77/x''
   \<and> extractIdsFromUrl example_URL ''https://www.roblox.com/places/77/x?id=42''
     = Inr \<lparr>ids_placeId = Some ''42''\<rparr>
   \<and> no_segment ''/games/'' ''/places/77''
   \<and> first_segment_at ''/places/'' ''/places/77'' 0
   \<and> extractIdsFromUrl example_URL ''https://www.roblox.com/places/77?tab=about''
     = Inr \<lparr>ids_placeId = Some ''77''\<rparr>"
proof -
  let ?u1 = "\<lparr>pathname = ''/games/1818/Adventure-Forward'', searchParams = [(''id'', ''7'')]\<rparr>"
  let ?u2 = "\<lparr>pathname = ''/places/77/x'', searchParams = [(''id'', ''42'')]\<rparr>"
  let ?u3 = "\<lparr>pathname = ''/places/77'', searchParams = [(''tab'', ''about'')]\<rparr>"
  have p1: "example_URL ''https://www.roblox.com/games/1818/Adventure-Forward?id=7'' = Inr ?u1"
    and p2: "example_URL ''https://www.roblox.com/places/77/x?id=42'' = Inr ?u2"
    and p3: "example_URL ''https://www.roblox.com/places/77?tab=about'' = Inr ?u3"
    by (simp_all add: example_URL_def)
  have g1: "first_segment_at ''/games/'' (pathname ?u1) 0"
    and d1: "digits_at ''/games/'' (pathname ?u1) 0 = ''1818''"
    by code_simp+
  have g2: "no_segment ''/games/'' (pathname ?u2) \<and> id_param ?u2 = Some ''42''"
    by code_simp
  have g3: "no_segment ''/games/'' (pathname ?u3) \<and> id_param ?u3 = None
      \<and> first_segment_at ''/places/'' (pathname ?u3) 0"
    and d3: "digits_at ''/places/'' (pathname ?u3) 0 = ''77''"
    by code_simp+
  from extractIdsFromUrl_precedence[where new_URL = example_URL and i = 0, OF p1] g1 d1
  have "extractIdsFromUrl example_URL ''https://www.roblox.com/games/1818/Adventure-Forward?id=7''
     = Inr \<lparr>ids_placeId = Some ''1818''\<rparr>"
    by simp
  moreover from extractIdsFromUrl_precedence[where new_URL = example_URL and q = "''42''", OF p2] g2
  have "extractIdsFromUrl example_URL ''https://www.roblox.com/places/77/x?id=42''
     = Inr \<lparr>ids_placeId = Some ''42''\<rparr>"
    by blast
  moreover from extractIdsFromUrl_precedence[where new_URL = example_URL and k = 0, OF p3] g3 d3
  have "extractIdsFromUrl example_URL ''https://www.roblox.com/places/77?tab=about''
     = Inr \<lparr>ids_placeId = Some ''77''\<rparr>"
    by simp
  ultimately show ?thesis using g1 g2 g3 by simp
qed

text \<open>A string that is not a URL.\<close>

theorem extractIdsFromUrl_never_raises_witness:
  "isl (example_URL ''roblox games 1818'')
   \<and> extractIdsFromUrl example_URL ''roblox games 1818'' = Inr \<lparr>ids_placeId = None\<rparr>"
proof -
  have h: "isl (example_URL ''roblox games 1818'')"
    by (simp add: example_URL_def)
  with extractIdsFromUrl_never_raises[of example_URL "''roblox games 1818''"]
  show ?thesis by blast
qed

section \<open>Properties of the embedded-data extractor\<close>

lemma first_parsed_append:
  "first_parsed P (xs @ ys) =
     (case first_parsed P xs of Some j \<Rightarrow> Some j | None \<Rightarrow> first_parsed P ys)"
  by (induction xs) (auto split: sum.splits)

lemma parse_script_attempts: "parse_script P s = Inr (first_parsed P (attempts s))"
  by (auto simp: parse_script_def attempts_def split: option.splits sum.splits)

text \<open>
  Claim C6. \<^verbatim>\<open>parseEmbeddedJson\<close> never throws. Its result is what the first text that
  parses gives, among the texts it tries over all the scripts in document order, and
  \<^verbatim>\<open>null\<close> when none of them parses.
\<close>

theorem parseEmbeddedJson_first_parsed:
  "parseEmbeddedJson JSON_parse scripts =
     Inr (case first_parsed JSON_parse (concat (map attempts scripts)) of
            Some j \<Rightarrow> j
          | None \<Rightarrow> JNull)"
proof (induction scripts)
  case Nil
  show ?case by simp
next
  case (Cons s ss)
  show ?case
  proof (cases "first_parsed JSON_parse (attempts s)")
    case None
    with Cons.IH show ?thesis
      by (simp add: parse_script_attempts first_parsed_append)
  next
    case (Some j)
    then show ?thesis
      by (simp add: parse_script_attempts first_parsed_append)
  qed
qed

section \<open>Properties of the handlers\<close>

lemma extractIdsFromUrl_returns: "\<exists>r. extractIdsFromUrl P u = Inr r"
  by (auto simp: extractIdsFromUrl_def split: sum.splits option.splits)

lemma parseEmbeddedJson_returns: "\<exists>j. parseEmbeddedJson P ss = Inr j"
  by (induction ss) (auto simp: parse_script_attempts split: option.splits)

lemma normalizeRecord_raw:
  "\<exists>r. normalizeRecord args t = Inr r
     \<and> own_property r ''raw_api'' = js_or (default_to JNull (apiData args)) JNull
     \<and> own_property r ''raw_page'' = js_or (default_to JNull (pageData args)) JNull"
proof -
  obtain c where c: "api_creator (default_to JNull (apiData args)) = Inr c"
    using api_creator_total by blast
  show ?thesis
    by (simp add: normalizeRecord_fields[OF c])
qed

lemma cheerio_gather_eq:
  assumes "extractIdsFromUrl (URL_parser env) (request_target pg) = Inr ids"
    and "parseEmbeddedJson (JSON_parser env) (pg_scripts pg) = Inr pageJson"
  shows "cheerio_gather env pg =
     Inr \<lparr>g_placeId = or_null (ids_placeId ids),
          g_apiData = fst (api_by_universe env (fst (api_by_place env (or_null (ids_placeId ids)))) pageJson),
          g_pageData = cheerio_pageData (cheerio_name pg) (cheerio_visits pg)
             (fst (api_by_universe env (fst (api_by_place env (or_null (ids_placeId ids)))) pageJson)) pageJson,
          g_raw = JObj [(''url'', JStr (request_target pg)),
             (''apiData'', fst (api_by_universe env (fst (api_by_place env (or_null (ids_placeId ids)))) pageJson)),
             (''pageJson'', pageJson)],
          g_calls = [Resolver, Extractor] @ snd (api_by_place env (or_null (ids_placeId ids)))
             @ snd (api_by_universe env (fst (api_by_place env (or_null (ids_placeId ids)))) pageJson)\<rparr>"
  by (simp add: cheerio_gather_def assms Let_def)

lemma playwright_gather_eq:
  assumes "extractIdsFromUrl (URL_parser env) (request_target pg) = Inr ids"
  shows "playwright_gather env pg =
     Inr \<lparr>g_placeId = or_null (ids_placeId ids),
          g_apiData = fst (api_by_place env (or_null (ids_placeId ids))),
          g_pageData = JObj [(''name'', playwright_name pg), (''playing'', playwright_playing pg)],
          g_raw = JObj [(''url'', JStr (request_target pg)),
             (''apiData'', fst (api_by_place env (or_null (ids_placeId ids)))),
             (''pageData'', JObj [(''name'', playwright_name pg), (''playing'', playwright_playing pg)])],
          g_calls = [Resolver] @ snd (api_by_place env (or_null (ids_placeId ids)))\<rparr>"
  by (simp add: playwright_gather_def assms Let_def)

lemma finish_pushed:
  assumes "normalizeRecord \<lparr>apiData = g_apiData g, pageData = g_pageData g, url = JStr u,
              placeId = opt_str (g_placeId g)\<rparr> (clock env) = Inr r"
    and "dataset_pushData env r = None"
  shows "finish env u g w =
     (None, save_raw env u (g_placeId g) (g_raw g)
        (w\<lparr>dataset := dataset w @ [r],
            calls := calls w @ g_calls g @ [Normalizer, DatasetSink, KeyValueSink]\<rparr>))"
  by (simp add: finish_def assms Let_def)

lemma finish_refused:
  assumes "normalizeRecord \<lparr>apiData = g_apiData g, pageData = g_pageData g, url = JStr u,
              placeId = opt_str (g_placeId g)\<rparr> (clock env) = Inr r"
    and "dataset_pushData env r = Some e"
  shows "finish env u g w =
     (Some e, w\<lparr>calls := calls w @ g_calls g @ [Normalizer, DatasetSink]\<rparr>)"
  by (simp add: finish_def assms Let_def)

lemma save_raw_fields:
  "dataset (save_raw env u pid v w) = dataset w"
  "calls (save_raw env u pid v w) = calls w"
  by (simp_all add: save_raw_def warn_kv_def split: sum.splits)

lemma save_raw_failed:
  "kv_write env u pid v = Inl e \<Longrightarrow>
   save_raw env u pid v w = w\<lparr>logs := logs w @ [Warning ''Failed to save raw JSON to KV'' u e]\<rparr>"
  by (simp add: save_raw_def warn_kv_def)

lemma normalizeRecord_gathered:
  "\<exists>r. normalizeRecord \<lparr>apiData = g_apiData g, pageData = g_pageData g, url = JStr u,
              placeId = opt_str (g_placeId g)\<rparr> t = Inr r
     \<and> own_property r ''raw_api'' = js_or (default_to JNull (g_apiData g)) JNull
     \<and> own_property r ''raw_page'' = js_or (default_to JNull (g_pageData g)) JNull"
  using normalizeRecord_raw[of "\<lparr>apiData = g_apiData g, pageData = g_pageData g, url = JStr u,
              placeId = opt_str (g_placeId g)\<rparr>" t]
  by simp

lemma cheerioHandler_completes:
  assumes "enqueueLinks env (request_target pg) = None"
    and "cheerio_gather env pg = Inr g"
    and "normalizeRecord \<lparr>apiData = g_apiData g, pageData = g_pageData g,
              url = JStr (request_target pg), placeId = opt_str (g_placeId g)\<rparr> (clock env) = Inr r"
    and "dataset_pushData env r = None"
  shows "cheerioHandler env pg w =
     (None, save_raw env (request_target pg) (g_placeId g) (g_raw g)
        (w\<lparr>logs := logs w @ [Info ''Processing (cheerio)'' (request_target pg)],
            dataset := dataset w @ [r],
            calls := calls w @ g_calls g @ [Normalizer, DatasetSink, KeyValueSink]\<rparr>))"
  by (simp add: cheerioHandler_def Let_def assms(1,2) finish_pushed[OF assms(3,4)])

lemma playwrightHandler_completes:
  assumes "enqueueLinks env (request_target pg) = None"
    and "playwright_gather env pg = Inr g"
    and "normalizeRecord \<lparr>apiData = g_apiData g, pageData = g_pageData g,
              url = JStr (request_target pg), placeId = opt_str (g_placeId g)\<rparr> (clock env) = Inr r"
    and "dataset_pushData env r = None"
  shows "playwrightHandler env pg w =
     (None, save_raw env (request_target pg) (g_placeId g) (g_raw g)
        (w\<lparr>logs := logs w @ [Info ''Processing (playwright)'' (request_target pg)],
            dataset := dataset w @ [r],
            calls := calls w @ g_calls g @ [Normalizer, DatasetSink, KeyValueSink]\<rparr>))"
  by (simp add: playwrightHandler_def Let_def assms(1,2) finish_pushed[OF assms(3,4)])

lemma cheerio_gather_returns: "\<exists>g. cheerio_gather env pg = Inr g"
proof -
  obtain ids where i: "extractIdsFromUrl (URL_parser env) (request_target pg) = Inr ids"
    using extractIdsFromUrl_returns by blast
  obtain j where j: "parseEmbeddedJson (JSON_parser env) (pg_scripts pg) = Inr j"
    using parseEmbeddedJson_returns by blast
  show ?thesis
    by (simp add: cheerio_gather_eq[OF i j])
qed

lemma playwright_gather_returns: "\<exists>g. playwright_gather env pg = Inr g"
proof -
  obtain ids where i: "extractIdsFromUrl (URL_parser env) (request_target pg) = Inr ids"
    using extractIdsFromUrl_returns by blast
  show ?thesis
    by (simp add: playwright_gather_eq[OF i])
qed

text \<open>
  Claim C8, as amended. When \<^verbatim>\<open>enqueueLinks\<close> and the dataset accept, both handlers return
  without throwing and the record is appended to the dataset, whatever the key-value store
  does. When the write to the key-value store fails (in the computation of the key or in
  \<^verbatim>\<open>setValue\<close>), the store is unchanged and the failure is logged as a warning. Nothing
  is said here of a failing \<^verbatim>\<open>dataset.pushData\<close>.
\<close>

theorem kv_failure_swallowed:
  assumes "enqueueLinks env (request_target pg) = None"
    and "\<And>r. dataset_pushData env r = None"
  shows "\<exists>gc gp rc rp.
      cheerio_gather env pg = Inr gc \<and> playwright_gather env pg = Inr gp
    \<and> fst (cheerioHandler env pg w) = None
    \<and> fst (playwrightHandler env pg w) = None
    \<and> dataset (snd (cheerioHandler env pg w)) = dataset w @ [rc]
    \<and> dataset (snd (playwrightHandler env pg w)) = dataset w @ [rp]
    \<and> (kv_write env (request_target pg) (g_placeId gc) (g_raw gc) = Inl e
        \<longrightarrow> kv (snd (cheerioHandler env pg w)) = kv w
          \<and> logs (snd (cheerioHandler env pg w)) =
              logs w @ [Info ''Processing (cheerio)'' (request_target pg),
                        Warning ''Failed to save raw JSON to KV'' (request_target pg) e])
    \<and> (kv_write env (request_target pg) (g_placeId gp) (g_raw gp) = Inl e
        \<longrightarrow> kv (snd (playwrightHandler env pg w)) = kv w
          \<and> logs (snd (playwrightHandler env pg w)) =
              logs w @ [Info ''Processing (playwright)'' (request_target pg),
                        Warning ''Failed to save raw JSON to KV'' (request_target pg) e])"
proof -
  obtain gc where gc: "cheerio_gather env pg = Inr gc"
    using cheerio_gather_returns by blast
  obtain gp where gp: "playwright_gather env pg = Inr gp"
    using playwright_gather_returns by blast
  obtain rc where rc: "normalizeRecord \<lparr>apiData = g_apiData gc, pageData = g_pageData gc,
      url = JStr (request_target pg), placeId = opt_str (g_placeId gc)\<rparr> (clock env) = Inr rc"
    using normalizeRecord_gathered by blast
  obtain rp where rp: "normalizeRecord \<lparr>apiData = g_apiData gp, pageData = g_pageData gp,
      url = JStr (request_target pg), placeId = opt_str (g_placeId gp)\<rparr> (clock env) = Inr rp"
    using normalizeRecord_gathered by blast
  note c = cheerioHandler_completes[OF assms(1) gc rc assms(2)]
  note p = playwrightHandler_completes[OF assms(1) gp rp assms(2)]
  have "fst (cheerioHandler env pg w) = None" "fst (playwrightHandler env pg w) = None"
    by (simp_all add: c p)
  moreover have "dataset (snd (cheerioHandler env pg w)) = dataset w @ [rc]"
    "dataset (snd (playwrightHandler env pg w)) = dataset w @ [rp]"
    by (simp_all add: c p save_raw_fields)
  moreover have "kv (snd (cheerioHandler env pg w)) = kv w
          \<and> logs (snd (cheerioHandler env pg w)) =
              logs w @ [Info ''Processing (cheerio)'' (request_target pg),
                        Warning ''Failed to save raw JSON to KV'' (request_target pg) e]"
    if "kv_write env (request_target pg) (g_placeId gc) (g_raw gc) = Inl e"
    by (simp add: c save_raw_failed[OF that])
  moreover have "kv (snd (playwrightHandler env pg w)) = kv w
          \<and> logs (snd (playwrightHandler env pg w)) =
              logs w @ [Info ''Processing (playwright)'' (request_target pg),
                        Warning ''Failed to save raw JSON to KV'' (request_target pg) e]"
    if "kv_write env (request_target pg) (g_placeId gp) (g_raw gp) = Inl e"
    by (simp add: p save_raw_failed[OF that])
  ultimately show ?thesis
    using gc gp by blast
qed

text \<open>The run of the example with a key-value store that refuses every write.\<close>

theorem kv_failure_swallowed_witness:
  "enqueueLinks failing_kv_env (request_target example_page) = None
   \<and> fst (cheerioHandler failing_kv_env example_page empty_world) = None
   \<and> fst (playwrightHandler failing_kv_env example_page empty_world) = None
   \<and> kv (snd (cheerioHandler failing_kv_env example_page empty_world)) = []
   \<and> kv (snd (playwrightHandler failing_kv_env example_page empty_world)) = []
   \<and> logs (snd (cheerioHandler failing_kv_env example_page empty_world)) =
       [Info ''Processing (cheerio)'' (request_target example_page),
        Warning ''Failed to save raw JSON to KV'' (request_target example_page)
          (External ''store unavailable'')]
   \<and> logs (snd (playwrightHandler failing_kv_env example_page empty_world)) =
       [Info ''Processing (playwright)'' (request_target example_page),
        Warning ''Failed to save raw JSON to KV'' (request_target example_page)
          (External ''store unavailable'')]"
proof -
  let ?e = "External ''store unavailable''"
  have h1: "enqueueLinks failing_kv_env (request_target example_page) = None"
    and h2: "\<And>r. dataset_pushData failing_kv_env r = None"
    by (simp_all add: failing_kv_env_def example_env_def)
  have k: "kv_write failing_kv_env u (Some p) v = Inl ?e" for u p v
    by (simp add: kv_write_def raw_key_def failing_kv_env_def example_env_def)
  have pc: "map_sum id g_placeId (cheerio_gather failing_kv_env example_page) = Inr (Some ''1818'')"
    by code_simp
  have pp: "map_sum id g_placeId (playwright_gather failing_kv_env example_page) = Inr (Some ''1818'')"
    by code_simp
  from kv_failure_swallowed[OF h1 h2, of empty_world ?e]
  obtain gc gp where gc: "cheerio_gather failing_kv_env example_page = Inr gc"
    and gp: "playwright_gather failing_kv_env example_page = Inr gp"
    and f: "fst (cheerioHandler failing_kv_env example_page empty_world) = None"
      "fst (playwrightHandler failing_kv_env example_page empty_world) = None"
    and c: "kv_write failing_kv_env (request_target example_page) (g_placeId gc) (g_raw gc) = Inl ?e
        \<longrightarrow> kv (snd (cheerioHandler failing_kv_env example_page empty_world)) = kv empty_world
          \<and> logs (snd (cheerioHandler failing_kv_env example_page empty_world)) =
              logs empty_world @ [Info ''Processing (cheerio)'' (request_target example_page),
                Warning ''Failed to save raw JSON to KV'' (request_target example_page) ?e]"
    and p: "kv_write failing_kv_env (request_target example_page) (g_placeId gp) (g_raw gp) = Inl ?e
        \<longrightarrow> kv (snd (playwrightHandler failing_kv_env example_page empty_world)) = kv empty_world
          \<and> logs (snd (playwrightHandler failing_kv_env example_page empty_world)) =
              logs empty_world @ [Info ''Processing (playwright)'' (request_target example_page),
                Warning ''Failed to save raw JSON to KV'' (request_target example_page) ?e]"
    by blast
  from pc gc have "g_placeId gc = Some ''1818''" by simp
  with c k have "kv (snd (cheerioHandler failing_kv_env example_page empty_world)) = kv empty_world
          \<and> logs (snd (cheerioHandler failing_kv_env example_page empty_world)) =
              logs empty_world @ [Info ''Processing (cheerio)'' (request_target example_page),
                Warning ''Failed to save raw JSON to KV'' (request_target example_page) ?e]"
    by simp
  moreover from pp gp have "g_placeId gp = Some ''1818''" by simp
  with p k have "kv (snd (playwrightHandler failing_kv_env example_page empty_world)) = kv empty_world
          \<and> logs (snd (playwrightHandler failing_kv_env example_page empty_world)) =
              logs empty_world @ [Info ''Processing (playwright)'' (request_target example_page),
                Warning ''Failed to save raw JSON to KV'' (request_target example_page) ?e]"
    by simp
  ultimately show ?thesis
    using h1 f by (simp add: empty_world_def)
qed

text \<open>
  Claim C8 as stated fails: \<^verbatim>\<open>dataset.pushData\<close> is outside every \<^verbatim>\<open>try\<close>. With a
  dataset that refuses the write, both handlers throw the error of the write, log no
  warning and do not reach the key-value store.
\<close>

theorem dataset_failure_propagates:
  "fst (cheerioHandler failing_dataset_env example_page empty_world)
     = Some (External ''dataset unavailable'')
   \<and> fst (playwrightHandler failing_dataset_env example_page empty_world)
     = Some (External ''dataset unavailable'')
   \<and> logs (snd (cheerioHandler failing_dataset_env example_page empty_world))
     = [Info ''Processing (cheerio)'' ''https://www.roblox.com/games/1818/Adventure-Forward?id=7'']
   \<and> logs (snd (playwrightHandler failing_dataset_env example_page empty_world))
     = [Info ''Processing (playwright)'' ''https://www.roblox.com/games/1818/Adventure-Forward?id=7'']
   \<and> kv (snd (cheerioHandler failing_dataset_env example_page empty_world)) = []
   \<and> kv (snd (playwrightHandler failing_dataset_env example_page empty_world)) = []"
  by code_simp

lemma request_target_scripts: "request_target (pg\<lparr>pg_scripts := ss\<rparr>) = request_target pg"
  by (simp add: request_target_def split: option.splits)

lemma api_by_place_parser: "api_by_place (env\<lparr>JSON_parser := p\<rparr>) pid = api_by_place env pid"
  by (simp add: api_by_place_def split: option.splits)

lemma playwright_reads_scripts:
  "playwright_name (pg\<lparr>pg_scripts := ss\<rparr>) = playwright_name pg"
  "playwright_playing (pg\<lparr>pg_scripts := ss\<rparr>) = playwright_playing pg"
  by (simp_all add: playwright_name_def playwright_playing_def)

lemma playwright_gather_scripts:
  "playwright_gather (env\<lparr>JSON_parser := p\<rparr>) (pg\<lparr>pg_scripts := ss\<rparr>) = playwright_gather env pg"
  by (simp add: playwright_gather_def request_target_scripts api_by_place_parser
      playwright_reads_scripts split: sum.splits)

lemma save_raw_parser: "save_raw (env\<lparr>JSON_parser := p\<rparr>) u pid v w = save_raw env u pid v w"
  by (simp add: save_raw_def kv_write_def raw_key_def split: sum.splits option.splits)

lemma finish_parser: "finish (env\<lparr>JSON_parser := p\<rparr>) u g w = finish env u g w"
  by (simp add: finish_def save_raw_parser Let_def split: sum.splits option.splits)

lemma playwright_ignores_scripts:
  "playwrightHandler (env\<lparr>JSON_parser := p\<rparr>) (pg\<lparr>pg_scripts := ss\<rparr>) w = playwrightHandler env pg w"
  by (simp add: playwrightHandler_def playwright_gather_scripts finish_parser request_target_scripts
      Let_def split: sum.splits option.splits)

text \<open>
  Claim C7, as amended. When \<^verbatim>\<open>enqueueLinks\<close> and the dataset accept, the static handler
  goes through resolver, extractor, the API lookups it makes, normalizer and the two sinks;
  the rendered handler goes through resolver, the lookup by place id when it is made,
  normalizer and the two sinks. The rendered handler goes through no extractor and no
  lookup by universe id: what it does is the same whatever the scripts of the page and
  whatever \<^verbatim>\<open>JSON.parse\<close> does.
\<close>

theorem handlers_component_chain:
  assumes "enqueueLinks env (request_target pg) = None"
    and "\<And>r. dataset_pushData env r = None"
  shows "\<exists>ids pageJson.
      extractIdsFromUrl (URL_parser env) (request_target pg) = Inr ids
    \<and> parseEmbeddedJson (JSON_parser env) (pg_scripts pg) = Inr pageJson
    \<and> calls (snd (cheerioHandler env pg w)) =
        calls w @ [Resolver, Extractor]
          @ snd (api_by_place env (or_null (ids_placeId ids)))
          @ snd (api_by_universe env (fst (api_by_place env (or_null (ids_placeId ids)))) pageJson)
          @ [Normalizer, DatasetSink, KeyValueSink]
    \<and> calls (snd (playwrightHandler env pg w)) =
        calls w @ [Resolver]
          @ snd (api_by_place env (or_null (ids_placeId ids)))
          @ [Normalizer, DatasetSink, KeyValueSink]
    \<and> playwrightHandler (env\<lparr>JSON_parser := p\<rparr>) (pg\<lparr>pg_scripts := ss\<rparr>) w
        = playwrightHandler env pg w"
proof -
  obtain ids where i: "extractIdsFromUrl (URL_parser env) (request_target pg) = Inr ids"
    using extractIdsFromUrl_returns by blast
  obtain j where j: "parseEmbeddedJson (JSON_parser env) (pg_scripts pg) = Inr j"
    using parseEmbeddedJson_returns by blast
  note gc = cheerio_gather_eq[OF i j]
  note gp = playwright_gather_eq[OF i]
  obtain rc where rc: "normalizeRecord \<lparr>apiData = g_apiData (projr (cheerio_gather env pg)),
      pageData = g_pageData (projr (cheerio_gather env pg)),
      url = JStr (request_target pg),
      placeId = opt_str (g_placeId (projr (cheerio_gather env pg)))\<rparr> (clock env) = Inr rc"
    using normalizeRecord_gathered by blast
  obtain rp where rp: "normalizeRecord \<lparr>apiData = g_apiData (projr (playwright_gather env pg)),
      pageData = g_pageData (projr (playwright_gather env pg)),
      url = JStr (request_target pg),
      placeId = opt_str (g_placeId (projr (playwright_gather env pg)))\<rparr> (clock env) = Inr rp"
    using normalizeRecord_gathered by blast
  have c: "cheerio_gather env pg = Inr (projr (cheerio_gather env pg))"
    by (simp add: gc)
  have p: "playwright_gather env pg = Inr (projr (playwright_gather env pg))"
    by (simp add: gp)
  have "calls (snd (cheerioHandler env pg w)) =
        calls w @ g_calls (projr (cheerio_gather env pg)) @ [Normalizer, DatasetSink, KeyValueSink]"
    by (simp add: cheerioHandler_completes[OF assms(1) c rc assms(2)] save_raw_fields)
  then have "calls (snd (cheerioHandler env pg w)) =
        calls w @ [Resolver, Extractor]
          @ snd (api_by_place env (or_null (ids_placeId ids)))
          @ snd (api_by_universe env (fst (api_by_place env (or_null (ids_placeId ids)))) j)
          @ [Normalizer, DatasetSink, KeyValueSink]"
    by (simp add: gc)
  moreover have "calls (snd (playwrightHandler env pg w)) =
        calls w @ g_calls (projr (playwright_gather env pg)) @ [Normalizer, DatasetSink, KeyValueSink]"
    by (simp add: playwrightHandler_completes[OF assms(1) p rp assms(2)] save_raw_fields)
  then have "calls (snd (playwrightHandler env pg w)) =
        calls w @ [Resolver]
          @ snd (api_by_place env (or_null (ids_placeId ids)))
          @ [Normalizer, DatasetSink, KeyValueSink]"
    by (simp add: gp)
  ultimately show ?thesis
    using i j playwright_ignores_scripts by blast
qed

text \<open>The run of the example, in both modes.\<close>

theorem handlers_component_chain_witness:
  "enqueueLinks example_env (request_target example_page) = None
   \<and> calls (snd (cheerioHandler example_env example_page empty_world)) =
       [Resolver, Extractor, ApiByPlaceId, Normalizer, DatasetSink, KeyValueSink]
   \<and> calls (snd (playwrightHandler example_env example_page empty_world)) =
       [Resolver, ApiByPlaceId, Normalizer, DatasetSink, KeyValueSink]
   \<and> playwrightHandler example_env plain_page empty_world
       = playwrightHandler example_env example_page empty_world"
proof -
  have h1: "enqueueLinks example_env (request_target example_page) = None"
    and h2: "\<And>r. dataset_pushData example_env r = None"
    by (simp_all add: example_env_def)
  have e: "extractIdsFromUrl (URL_parser example_env) (request_target example_page)
      = Inr \<lparr>ids_placeId = Some ''1818''\<rparr>"
    by code_simp
  have j: "parseEmbeddedJson (JSON_parser example_env) (pg_scripts example_page)
      = Inr (JObj [(''universeId'', JNum 999), (''visits'', JNum 5), (''experienceId'', JNum 77)])"
    by code_simp
  have a: "snd (api_by_place example_env (or_null (Some ''1818''))) = [ApiByPlaceId]"
    "snd (api_by_universe example_env (fst (api_by_place example_env (or_null (Some ''1818''))))
       (JObj [(''universeId'', JNum 999), (''visits'', JNum 5), (''experienceId'', JNum 77)])) = []"
    by code_simp+
  have s: "example_env\<lparr>JSON_parser := JSON_parser example_env\<rparr> = example_env"
    "example_page\<lparr>pg_scripts := [''var x = 1;'']\<rparr> = plain_page"
    by (simp_all add: plain_page_def)
  from handlers_component_chain[OF h1 h2, of empty_world "JSON_parser example_env" "[''var x = 1;'']"]
  show ?thesis
    using h1 by (simp add: e j a s empty_world_def)
qed

text \<open>
  Claim C7 as stated fails: on the example page the static handler goes through the
  extractor and the rendered handler does not; the page fragment of the static record has
  the \<^verbatim>\<open>experienceId\<close> of the embedded state and that of the rendered record has none.
\<close>

theorem rendered_mode_skips_extractor:
  "Extractor \<in> set (calls (snd (cheerioHandler example_env example_page empty_world)))
   \<and> Extractor \<notin> set (calls (snd (playwrightHandler example_env example_page empty_world)))
   \<and> own_property (own_property (last (dataset (snd
         (cheerioHandler example_env example_page empty_world)))) ''raw_page'') ''experienceId''
       = JNum 77
   \<and> own_property (own_property (last (dataset (snd
         (playwrightHandler example_env example_page empty_world)))) ''raw_page'') ''experienceId''
       = JUndefined"
  by code_simp

lemma digits_of_nat_digits: "set (digits_of_nat n) \<subseteq> set ''0123456789''"
proof (induction n rule: digits_of_nat.induct)
  case (1 n)
  have d: "''0123456789'' ! k \<in> set ''0123456789''" if "k < 10" for k
    using that by (intro nth_mem) simp
  show ?case
  proof (cases "n < 10")
    case True
    then show ?thesis
      using d[of n] by (subst digits_of_nat.simps) simp
  next
    case False
    with 1 have "set (digits_of_nat (n div 10)) \<subseteq> set ''0123456789''"
      by simp
    moreover have "''0123456789'' ! (n mod 10) \<in> set ''0123456789''"
      by (rule d) simp
    ultimately show ?thesis
      using False by (subst digits_of_nat.simps) simp
  qed
qed

lemma visits_not_index: "''visits'' \<noteq> digits_of_nat n"
proof
  assume eq: "''visits'' = digits_of_nat n"
  have "CHR ''v'' \<in> set ''visits''"
    by simp
  then have "CHR ''v'' \<in> set (digits_of_nat n)"
    by (simp only: eq)
  then have "CHR ''v'' \<in> set ''0123456789''"
    by (rule subsetD[OF digits_of_nat_digits])
  then show False by simp
qed

lemma map_of_zip_notin: "k \<notin> set ks \<Longrightarrow> map_of (zip ks vs) k = None"
proof (induction ks arbitrary: vs)
  case Nil
  show ?case by simp
next
  case (Cons a ks)
  then show ?case by (cases vs) auto
qed

lemma map_of_indices:
  "map_of (zip (map digits_of_nat ns) xs) ''visits'' = None"
proof (rule map_of_zip_notin)
  show "''visits'' \<notin> set (map digits_of_nat ns)"
  proof
    assume "''visits'' \<in> set (map digits_of_nat ns)"
    then obtain n where "''visits'' = digits_of_nat n"
      by (auto simp only: set_map image_iff)
    with visits_not_index show False by blast
  qed
qed

lemma props_of_visits:
  "map_of (props_of v) ''visits'' =
     (if has_property v ''visits'' then Some (own_property v ''visits'') else None)"
  by (cases v) (auto simp: map_of_indices)

lemma map_of_spread_over:
  "map_of (spread_over base v) k =
     (case map_of (props_of v) k of Some x \<Rightarrow> Some x | None \<Rightarrow> map_of base k)"
proof (cases "map_of (props_of v) k")
  case None
  have "map_of (filter (\<lambda>kv. map_of (props_of v) (fst kv) = None) base) k = map_of base k"
    using None by (induction base) auto
  with None show ?thesis
    by (simp add: spread_over_def map_add_def)
next
  case (Some x)
  then show ?thesis
    by (simp add: spread_over_def map_add_def)
qed

lemma cheerio_pageData_visits:
  "truthy api \<Longrightarrow>
   own_property (cheerio_pageData name visits api pageJson) ''visits'' =
     (if has_property pageJson ''visits'' then own_property pageJson ''visits''
      else own_property api ''visits'')"
  by (simp add: cheerio_pageData_def map_of_spread_over props_of_visits)

text \<open>
  Claim C10, as amended. In static mode, when \<^verbatim>\<open>enqueueLinks\<close> and the dataset accept,
  the page fragment handed to the normalizer is stored as \<^verbatim>\<open>raw_page\<close>. When the API
  fragment is truthy, the \<^verbatim>\<open>visits\<close> of that page fragment is the \<^verbatim>\<open>visits\<close> of the
  embedded object if the embedded object has one, and \<^verbatim>\<open>apiData.visits\<close> otherwise; it
  is never the value scraped from the DOM.
\<close>

theorem cheerio_raw_page_visits:
  assumes "enqueueLinks env (request_target pg) = None"
    and "\<And>r. dataset_pushData env r = None"
  shows "\<exists>g pageJson r.
      cheerio_gather env pg = Inr g
    \<and> parseEmbeddedJson (JSON_parser env) (pg_scripts pg) = Inr pageJson
    \<and> dataset (snd (cheerioHandler env pg w)) = dataset w @ [r]
    \<and> own_property r ''raw_page'' = g_pageData g
    \<and> (truthy (g_apiData g)
        \<longrightarrow> own_property r ''raw_api'' = g_apiData g
          \<and> own_property (g_pageData g) ''visits'' =
              (if has_property pageJson ''visits'' then own_property pageJson ''visits''
               else own_property (g_apiData g) ''visits''))"
proof -
  obtain ids where i: "extractIdsFromUrl (URL_parser env) (request_target pg) = Inr ids"
    using extractIdsFromUrl_returns by blast
  obtain j where j: "parseEmbeddedJson (JSON_parser env) (pg_scripts pg) = Inr j"
    using parseEmbeddedJson_returns by blast
  let ?g = "projr (cheerio_gather env pg)"
  note eq = cheerio_gather_eq[OF i j]
  have g: "cheerio_gather env pg = Inr ?g"
    by (simp add: eq)
  obtain r where r: "normalizeRecord \<lparr>apiData = g_apiData ?g, pageData = g_pageData ?g,
      url = JStr (request_target pg), placeId = opt_str (g_placeId ?g)\<rparr> (clock env) = Inr r"
    and ra: "own_property r ''raw_api'' = js_or (default_to JNull (g_apiData ?g)) JNull"
    and rp: "own_property r ''raw_page'' = js_or (default_to JNull (g_pageData ?g)) JNull"
    using normalizeRecord_gathered by blast
  have d: "dataset (snd (cheerioHandler env pg w)) = dataset w @ [r]"
    by (simp add: cheerioHandler_completes[OF assms(1) g r assms(2)] save_raw_fields)
  have pd: "g_pageData ?g = cheerio_pageData (cheerio_name pg) (cheerio_visits pg) (g_apiData ?g) j"
    by (simp add: eq)
  have "own_property r ''raw_page'' = g_pageData ?g"
    by (simp add: rp pd cheerio_pageData_def default_to_def js_or_def)
  moreover have "own_property r ''raw_api'' = g_apiData ?g" if "truthy (g_apiData ?g)"
    using that by (auto simp: ra default_to_def js_or_def)
  moreover have "own_property (g_pageData ?g) ''visits'' =
      (if has_property j ''visits'' then own_property j ''visits''
       else own_property (g_apiData ?g) ''visits'')" if "truthy (g_apiData ?g)"
    unfolding pd using that by (rule cheerio_pageData_visits)
  ultimately show ?thesis
    using g j d by blast
qed

text \<open>The page without inline state: \<^verbatim>\<open>raw_page.visits\<close> is the API's 1000000.\<close>

theorem cheerio_raw_page_visits_witness:
  "enqueueLinks example_env (request_target plain_page) = None
   \<and> own_property (own_property (last (dataset (snd
         (cheerioHandler example_env plain_page empty_world)))) ''raw_api'') ''visits''
       = JNum 1000000
   \<and> own_property (own_property (last (dataset (snd
         (cheerioHandler example_env plain_page empty_world)))) ''raw_page'') ''visits''
       = JNum 1000000"
proof -
  have h1: "enqueueLinks example_env (request_target plain_page) = None"
    and h2: "\<And>r. dataset_pushData example_env r = None"
    by (simp_all add: example_env_def)
  have j: "parseEmbeddedJson (JSON_parser example_env) (pg_scripts plain_page) = Inr JNull"
    by code_simp
  have a: "map_sum id g_apiData (cheerio_gather example_env plain_page) =
      Inr (JObj [(''rootPlaceId'', JNum 1818), (''universeId'', JNum 999),
                 (''name'', JStr ''Adventure Forward''), (''visits'', JNum 1000000)])"
    by code_simp
  from cheerio_raw_page_visits[OF h1 h2, of empty_world]
  obtain g pageJson r where g: "cheerio_gather example_env plain_page = Inr g"
    and pj: "parseEmbeddedJson (JSON_parser example_env) (pg_scripts plain_page) = Inr pageJson"
    and d: "dataset (snd (cheerioHandler example_env plain_page empty_world))
        = dataset empty_world @ [r]"
    and rp: "own_property r ''raw_page'' = g_pageData g"
    and v: "truthy (g_apiData g)
        \<longrightarrow> own_property r ''raw_api'' = g_apiData g
          \<and> own_property (g_pageData g) ''visits'' =
              (if has_property pageJson ''visits'' then own_property pageJson ''visits''
               else own_property (g_apiData g) ''visits'')"
    by blast
  from a g have ga: "g_apiData g = JObj [(''rootPlaceId'', JNum 1818), (''universeId'', JNum 999),
                 (''name'', JStr ''Adventure Forward''), (''visits'', JNum 1000000)]"
    by simp
  from j pj have "pageJson = JNull" by simp
  with v ga rp have "own_property (own_property r ''raw_api'') ''visits'' = JNum 1000000"
    "own_property (own_property r ''raw_page'') ''visits'' = JNum 1000000"
    by simp_all
  with d h1 show ?thesis by simp
qed

text \<open>
  Claim C10 as stated fails: on the example page the API answers with 1000000 visits and
  the embedded state has \<^verbatim>\<open>visits\<close> 5; the spread of the embedded state comes last in
  the object literal, and \<^verbatim>\<open>raw_page.visits\<close> is 5.
\<close>

theorem embedded_visits_override:
  "fst (cheerioHandler example_env example_page empty_world) = None
   \<and> truthy (own_property (last (dataset (snd
         (cheerioHandler example_env example_page empty_world)))) ''raw_api'')
   \<and> own_property (own_property (last (dataset (snd
         (cheerioHandler example_env example_page empty_world)))) ''raw_api'') ''visits''
       = JNum 1000000
   \<and> own_property (own_property (last (dataset (snd
         (cheerioHandler example_env example_page empty_world)))) ''raw_page'') ''visits''
       = JNum 5"
  by code_simp

end
